theory Spec2Isabelle
  imports Complex_Main
begin

section \<open>Values shared by the scraper, the scorer and the filter\<close>

text \<open>
  The bot of \<^verbatim>\<open>src/backend/main.py\<close> scrapes a search page, scores the listings that are
  new with a language model, keeps those whose score reaches a threshold and records the
  identifiers it has processed. Python strings are modelled as \<^typ>\<open>string\<close>, a finite
  Python float by its value as a rational number (\<^verbatim>\<open>>=\<close> on floats compares values),
  and every exception the code can raise is a value of \<open>py_error\<close>.
\<close>

datatype py_error = KeyError | TypeError | UnboundLocalError

text \<open>
  What \<^verbatim>\<open>json.loads\<close> can put under a key of the scorer's answer. The contents of arrays
  and objects are never read by the code modelled here.
\<close>

datatype jvalue = JNum rat | JBool bool | JStr string | JNull | JArr | JObj

text \<open>The four keys \<^verbatim>\<open>llm_evaluate_listing\<close> guarantees in the dictionary it returns.\<close>

record evaluation =
  match_score :: jvalue
  reasoning :: jvalue
  feature_match :: jvalue
  quality_assessment :: jvalue

text \<open>
  The dictionary \<^verbatim>\<open>listing_info\<close> built by \<^verbatim>\<open>scrape_new_listings_data\<close>; the key
  \<^verbatim>\<open>id\<close> is the field \<open>listing_id\<close> and the key \<^verbatim>\<open>text\<close> the field \<open>text_content\<close>.
\<close>

record listing =
  listing_id :: string
  url :: string
  title :: string
  text_content :: string
  price :: string
  location_zip :: string

text \<open>\<^verbatim>\<open>listing.copy()\<close> with the key \<^verbatim>\<open>evaluation\<close> added.\<close>

record evaluated_listing = listing +
  evaluation :: evaluation

section \<open>The threshold filter\<close>

text \<open>
  \<^verbatim>\<open>listing['evaluation']['match_score'] >= threshold\<close>: a float compares by value, a
  Python \<^verbatim>\<open>bool\<close> is the integer 0 or 1, and a string, \<^verbatim>\<open>None\<close>, a list or a dictionary
  against a float raises \<^verbatim>\<open>TypeError\<close>.
\<close>

fun score_ge :: "jvalue \<Rightarrow> rat \<Rightarrow> py_error + bool" where
  "score_ge (JNum q) threshold = Inr (threshold \<le> q)"
| "score_ge (JBool b) threshold = Inr (threshold \<le> (if b then 1 else 0))"
| "score_ge (JStr s) threshold = Inl TypeError"
| "score_ge JNull threshold = Inl TypeError"
| "score_ge JArr threshold = Inl TypeError"
| "score_ge JObj threshold = Inl TypeError"

text \<open>
  \<^verbatim>\<open>get_production_listings\<close>: the list comprehension, left to right; an exception in the
  condition ends the comprehension.
\<close>

fun get_production_listings ::
  "evaluated_listing list \<Rightarrow> rat \<Rightarrow> py_error + evaluated_listing list" where
  "get_production_listings [] threshold = Inr []"
| "get_production_listings (l # ls) threshold =
     (case score_ge (match_score (evaluation l)) threshold of
        Inl e \<Rightarrow> Inl e
      | Inr keep \<Rightarrow>
          (case get_production_listings ls threshold of
             Inl e \<Rightarrow> Inl e
           | Inr kept \<Rightarrow> Inr (if keep then l # kept else kept)))"

section \<open>Strings as Python handles them\<close>

text \<open>\<^verbatim>\<open>s.startswith(p)\<close>.\<close>

definition startswith :: "string \<Rightarrow> string \<Rightarrow> bool" where
  "startswith s p = (take (length p) s = p)"

text \<open>\<^verbatim>\<open>sub in s\<close> on strings: \<open>sub\<close> occurs in \<open>s\<close> as a contiguous block.\<close>

fun contains :: "string \<Rightarrow> string \<Rightarrow> bool" where
  "contains sub [] = (sub = [])"
| "contains sub (c # cs) = (startswith (c # cs) sub \<or> contains sub cs)"

text \<open>\<^verbatim>\<open>s.replace(' ', '+')\<close>.\<close>

definition replace_spaces :: "string \<Rightarrow> string" where
  "replace_spaces s = map (\<lambda>c. if c = CHR '' '' then CHR ''+'' else c) s"

text \<open>\<^verbatim>\<open>str(n)\<close> for a natural number, as an f-string prints it.\<close>

definition digit_char :: "nat \<Rightarrow> char" where
  "digit_char d = ''0123456789'' ! d"

fun str_nat :: "nat \<Rightarrow> string" where
  "str_nat n = (if n < 10 then [digit_char n] else str_nat (n div 10) @ [digit_char (n mod 10)])"

declare str_nat.simps [simp del]

text \<open>
  \<^verbatim>\<open>xs[:n]\<close>: a negative \<open>n\<close> counts from the end, and a bound beyond either end is
  clipped.
\<close>

definition py_prefix :: "int \<Rightarrow> 'a list \<Rightarrow> 'a list" where
  "py_prefix n xs = (if 0 \<le> n then take (nat n) xs else take (length xs - nat (- n)) xs)"

section \<open>The listing identifier read from a URL\<close>

text \<open>
  \<^verbatim>\<open>\d\<close> on the characters modelled here (one byte each) is an ASCII digit.
\<close>

definition is_digit :: "char \<Rightarrow> bool" where
  "is_digit c = (c \<in> set ''0123456789'')"

text \<open>
  \<^verbatim>\<open>(\d+)\.html\<close> matched at the start of a string: the longest run of digits, which must
  not be empty, followed by \<^verbatim>\<open>.html\<close>. A shorter run cannot match, since the character
  after it is a digit and not a dot.
\<close>

definition match_digits_html :: "string \<Rightarrow> string option" where
  "match_digits_html s =
     (let ds = takeWhile is_digit s; rest = dropWhile is_digit s
      in if ds \<noteq> [] \<and> startswith rest ''.html'' then Some ds else None)"

text \<open>\<^verbatim>\<open>re.search(r'/(\d+)\.html', url)\<close>, group 1 of the leftmost match.\<close>

fun search_numeric_id :: "string \<Rightarrow> string option" where
  "search_numeric_id [] = None"
| "search_numeric_id (c # cs) =
     (case (if c = CHR ''/'' then match_digits_html cs else None) of
        Some ds \<Rightarrow> Some ds
      | None \<Rightarrow> search_numeric_id cs)"

text \<open>
  \<^verbatim>\<open>/d/([^/]+)/(\d+)\.html\<close> matched at the start of a string: after \<^verbatim>\<open>/d/\<close> the longest
  run of characters other than a slash, not empty, then a slash, then the digits as above.
\<close>

definition match_titled_html :: "string \<Rightarrow> string option" where
  "match_titled_html s =
     (if startswith s ''/d/'' then
        (let after = drop 3 s;
             seg = takeWhile (\<lambda>c. c \<noteq> CHR ''/'') after;
             rest = dropWhile (\<lambda>c. c \<noteq> CHR ''/'') after
         in if seg \<noteq> [] \<and> startswith rest ''/'' then match_digits_html (drop 1 rest) else None)
      else None)"

text \<open>\<^verbatim>\<open>re.search(r'/d/([^/]+)/(\d+)\.html', url)\<close>, group 2 of the leftmost match.\<close>

fun search_titled_id :: "string \<Rightarrow> string option" where
  "search_titled_id [] = None"
| "search_titled_id (c # cs) =
     (case match_titled_html (c # cs) of
        Some ds \<Rightarrow> Some ds
      | None \<Rightarrow> search_titled_id cs)"

text \<open>\<^verbatim>\<open>extract_listing_id_from_url\<close>: the first pattern, then the alternative one.\<close>

definition extract_listing_id_from_url :: "string \<Rightarrow> string option" where
  "extract_listing_id_from_url u =
     (case search_numeric_id u of
        Some ds \<Rightarrow> Some ds
      | None \<Rightarrow> search_titled_id u)"

section \<open>The scraper\<close>

text \<open>
  One item of the page's JSON-LD block as the scraper stores it (\<^verbatim>\<open>listing_data\<close>). Its
  keys \<^verbatim>\<open>images\<close> and \<^verbatim>\<open>position\<close> are stored and never used, so they are left out.
\<close>

record json_ld_listing =
  jl_title :: string
  jl_price :: string
  jl_description :: string
  jl_location :: string

text \<open>
  One \<^verbatim>\<open>li.cl-static-search-result\<close> element of the page: \<open>href\<close> is the \<^verbatim>\<open>href\<close> of its
  first link that has one (\<open>None\<close> when \<^verbatim>\<open>find('a', href=True)\<close> finds no link), and
  \<open>link_text\<close> that link's stripped text.
\<close>

record dom_element =
  href :: "string option"
  link_text :: string

text \<open>What the scraper reads off a listing's own page.\<close>

record listing_page =
  page_text :: string
  page_price :: string
  page_zip :: string

record search_page =
  dom_elements :: "dom_element list"
  json_ld_listings :: "json_ld_listing list"

text \<open>
  The world the scraper runs in: \<open>netloc\<close> is \<^verbatim>\<open>urlparse(search_url).netloc\<close>;
  \<open>fetch_search\<close> is the parsed search page, \<open>None\<close> when the request or
  \<^verbatim>\<open>raise_for_status\<close> raises; \<open>fetch_listing\<close> does the same for the page of a listing
  URL; \<open>py_hash\<close> is Python's \<^verbatim>\<open>hash\<close> on strings, as it is in the process that runs
  the scraper (Python salts it anew in every process).
\<close>

record scrape_env =
  netloc :: string
  fetch_search :: "search_page option"
  fetch_listing :: "string \<Rightarrow> listing_page option"
  py_hash :: "string \<Rightarrow> int"

datatype listing_element = JsonLd json_ld_listing | Dom dom_element

text \<open>
  \<^verbatim>\<open>f"https://{urlparse(search_url).netloc}"\<close> followed by a relative link. The function
  imports \<^verbatim>\<open>urlparse\<close> in its own body (in the JSON-LD branch), so the name is local to
  the function and reading it before that import has run raises \<^verbatim>\<open>UnboundLocalError\<close>;
  \<open>bound\<close> says whether the import has run.
\<close>

definition absolute_url :: "scrape_env \<Rightarrow> bool \<Rightarrow> string \<Rightarrow> py_error + string" where
  "absolute_url env bound u =
     (if startswith u ''/'' then
        (if bound then Inr (''https://'' @ netloc env @ u) else Inl UnboundLocalError)
      else Inr u)"

text \<open>
  The inner loop of the JSON-LD branch: the link of the first DOM element whose link text
  equals or contains the title.
\<close>

fun find_actual_listing_url ::
  "scrape_env \<Rightarrow> bool \<Rightarrow> string \<Rightarrow> dom_element list \<Rightarrow> py_error + string option" where
  "find_actual_listing_url env bound ttl [] = Inr None"
| "find_actual_listing_url env bound ttl (d # ds) =
     (case href d of
        None \<Rightarrow> find_actual_listing_url env bound ttl ds
      | Some h \<Rightarrow>
          if link_text d = ttl \<or> contains ttl (link_text d) then
            (case absolute_url env bound h of
               Inl e \<Rightarrow> Inl e
             | Inr u \<Rightarrow> Inr (Some u))
          else find_actual_listing_url env bound ttl ds)"

text \<open>
  The identifiers the loop builds at index \<open>i\<close> of the enumeration:
  \<^verbatim>\<open>f"json_ld_{i}_{hash(title) % 100000}"\<close> and \<^verbatim>\<open>f"dom_{i}_{numeric_id}"\<close>.
\<close>

definition json_ld_listing_id :: "scrape_env \<Rightarrow> nat \<Rightarrow> string \<Rightarrow> string" where
  "json_ld_listing_id env i ttl =
     ''json_ld_'' @ str_nat i @ ''_'' @ str_nat (nat (py_hash env ttl mod 100000))"

definition dom_listing_id :: "nat \<Rightarrow> string \<Rightarrow> string" where
  "dom_listing_id i numeric_id = ''dom_'' @ str_nat i @ ''_'' @ numeric_id"

text \<open>
  The body of the loop up to the test against the seen identifiers, for one element at
  index \<open>i\<close>. The result is the listing built (\<open>None\<close> when the body ends in
  \<^verbatim>\<open>continue\<close>, by itself or through the inner \<^verbatim>\<open>except\<close>), and whether \<^verbatim>\<open>urlparse\<close> is
  bound afterwards.
\<close>

definition process_json_ld ::
  "scrape_env \<Rightarrow> dom_element list \<Rightarrow> bool \<Rightarrow> nat \<Rightarrow> json_ld_listing \<Rightarrow> listing option \<times> bool" where
  "process_json_ld env doms bound i j =
     (case find_actual_listing_url env bound (jl_title j) doms of
        Inl e \<Rightarrow> (None, bound)
      | Inr actual \<Rightarrow>
          (let region = takeWhile (\<lambda>c. c \<noteq> CHR ''.'') (netloc env);
               fallback = ''https://'' @ region @ ''.craigslist.org/search/sss?query=''
                            @ replace_spaces (jl_title j);
               listing_url = (case actual of
                                None \<Rightarrow> fallback
                              | Some u \<Rightarrow> if u = [] then fallback else u)
           in (Some \<lparr> listing_id = json_ld_listing_id env i (jl_title j),
                      url = listing_url,
                      title = jl_title j,
                      text_content =
                        (if jl_description j = [] then jl_title j else jl_description j),
                      price = jl_price j,
                      location_zip = jl_location j \<rparr>, True)))"

definition process_dom ::
  "scrape_env \<Rightarrow> bool \<Rightarrow> nat \<Rightarrow> dom_element \<Rightarrow> listing option \<times> bool" where
  "process_dom env bound i d =
     (case href d of
        None \<Rightarrow> (None, bound)
      | Some h \<Rightarrow>
          if h = [] then (None, bound)
          else
            (case absolute_url env bound h of
               Inl e \<Rightarrow> (None, bound)
             | Inr listing_url \<Rightarrow>
                 (case extract_listing_id_from_url listing_url of
                    None \<Rightarrow> (None, bound)
                  | Some numeric_id \<Rightarrow>
                      (case fetch_listing env listing_url of
                         None \<Rightarrow> (None, bound)
                       | Some pg \<Rightarrow>
                           (Some \<lparr> listing_id = dom_listing_id i numeric_id,
                                   url = listing_url,
                                   title = link_text d,
                                   text_content = page_text pg,
                                   price = page_price pg,
                                   location_zip = page_zip pg \<rparr>, bound)))))"

fun process_element ::
  "scrape_env \<Rightarrow> dom_element list \<Rightarrow> bool \<Rightarrow> nat \<Rightarrow> listing_element \<Rightarrow> listing option \<times> bool" where
  "process_element env doms bound i (JsonLd j) = process_json_ld env doms bound i j"
| "process_element env doms bound i (Dom d) = process_dom env bound i d"

text \<open>
  \<^verbatim>\<open>seen_ids and listing_id in seen_ids\<close>: \<^verbatim>\<open>None\<close> and the empty set are falsy.
\<close>

definition seen_hit :: "string set option \<Rightarrow> string \<Rightarrow> bool" where
  "seen_hit seen_ids lid =
     (case seen_ids of None \<Rightarrow> False | Some S \<Rightarrow> S \<noteq> {} \<and> lid \<in> S)"

text \<open>
  The loop \<^verbatim>\<open>for i, listing_element in enumerate(listing_elements)\<close>, from index \<open>i\<close> on:
  the listings appended from there. An element whose body ends in \<^verbatim>\<open>continue\<close> adds
  nothing; on a run that is not initial, a listing whose identifier is among the seen ones
  ends the loop (\<^verbatim>\<open>break\<close>) before it is appended.
\<close>

fun scrape_loop ::
  "scrape_env \<Rightarrow> dom_element list \<Rightarrow> bool \<Rightarrow> string set option \<Rightarrow> bool \<Rightarrow> nat \<Rightarrow>
   listing_element list \<Rightarrow> listing list" where
  "scrape_loop env doms is_initial_run seen_ids bound i [] = []"
| "scrape_loop env doms is_initial_run seen_ids bound i (e # es) =
     (case process_element env doms bound i e of
        (None, bound') \<Rightarrow> scrape_loop env doms is_initial_run seen_ids bound' (Suc i) es
      | (Some l, bound') \<Rightarrow>
          if \<not> is_initial_run \<and> seen_hit seen_ids (listing_id l) then []
          else l # scrape_loop env doms is_initial_run seen_ids bound' (Suc i) es)"

text \<open>
  The elements the loop runs over: the JSON-LD items when there are any, the DOM elements
  otherwise.
\<close>

definition listing_elements_of :: "search_page \<Rightarrow> listing_element list" where
  "listing_elements_of pg =
     (if json_ld_listings pg \<noteq> [] then map JsonLd (json_ld_listings pg)
      else map Dom (dom_elements pg))"

text \<open>
  \<^verbatim>\<open>scrape_new_listings_data(search_url, is_initial_run, initial_scrape_count, seen_ids)\<close>.
  When fetching the search page raises, the outer \<^verbatim>\<open>except\<close> prints the error and the
  function returns the listings collected so far, which are none.
\<close>

definition scrape_new_listings_data ::
  "scrape_env \<Rightarrow> bool \<Rightarrow> int \<Rightarrow> string set option \<Rightarrow> listing list" where
  "scrape_new_listings_data env is_initial_run initial_scrape_count seen_ids =
     (case fetch_search env of
        None \<Rightarrow> []
      | Some pg \<Rightarrow>
          (let listing_elements = listing_elements_of pg;
               listing_elements =
                 (if is_initial_run then py_prefix initial_scrape_count listing_elements
                  else listing_elements)
           in scrape_loop env (dom_elements pg) is_initial_run seen_ids False 0
                listing_elements))"

text \<open>
  The listings of the whole page in rank order: what the loop appends when it runs over
  every element of the page and nothing stops it.
\<close>

definition fetched_listings :: "scrape_env \<Rightarrow> listing list" where
  "fetched_listings env =
     (case fetch_search env of
        None \<Rightarrow> []
      | Some pg \<Rightarrow> scrape_loop env (dom_elements pg) True None False 0 (listing_elements_of pg))"

text \<open>A search page that holds no element.\<close>

definition empty_page :: search_page where
  "empty_page = \<lparr> dom_elements = [], json_ld_listings = [] \<rparr>"

section \<open>The scorer\<close>

text \<open>\<^verbatim>\<open>s.find(c)\<close> and \<^verbatim>\<open>s.rfind(c)\<close> for one character: an index, or -1.\<close>

definition py_find :: "char \<Rightarrow> string \<Rightarrow> int" where
  "py_find c s = (if c \<in> set s then int (length (takeWhile (\<lambda>x. x \<noteq> c) s)) else - 1)"

definition py_rfind :: "char \<Rightarrow> string \<Rightarrow> int" where
  "py_rfind c s =
     (if c \<in> set s then int (length s) - 1 - int (length (takeWhile (\<lambda>x. x \<noteq> c) (rev s)))
      else - 1)"

text \<open>\<^verbatim>\<open>s[a:b]\<close> for bounds that are not negative.\<close>

definition py_slice :: "int \<Rightarrow> int \<Rightarrow> 'a list \<Rightarrow> 'a list" where
  "py_slice a b s = drop (nat a) (take (nat b) s)"

text \<open>
  What the request to the language model gives: \<open>ApiRaises msg\<close> when the call, or reading
  and stripping the answer, raises an exception \<open>e\<close> with \<^verbatim>\<open>str(e) = msg\<close>;
  \<open>ApiText t\<close> when it answers the stripped text \<open>t\<close>.
\<close>

datatype api_result = ApiRaises string | ApiText string

text \<open>
  The scorer's world: whether \<^verbatim>\<open>openai_client\<close> is set, the answer to the request for a
  listing and the user's criteria, \<^verbatim>\<open>json.loads\<close> (\<open>None\<close> for \<^verbatim>\<open>JSONDecodeError\<close>), and
  the text of the exception that slicing a value which is no string and no list raises.
\<close>

record scorer_env =
  openai_available :: bool
  chat_completion :: "listing \<Rightarrow> string \<Rightarrow> api_result"
  json_loads :: "string \<Rightarrow> (string \<rightharpoonup> jvalue) option"
  slice_error_text :: "jvalue \<Rightarrow> string"

text \<open>The dictionary returned when no evaluation is available.\<close>

definition fallback_evaluation :: "string \<Rightarrow> evaluation" where
  "fallback_evaluation why =
     \<lparr> match_score = JNum (1 / 2), reasoning = JStr why,
       feature_match = JStr ''Unknown'', quality_assessment = JStr ''Unknown'' \<rparr>"

text \<open>The loop over \<^verbatim>\<open>required_fields\<close>: a missing key gets the string \<^verbatim>\<open>'Unknown'\<close>.\<close>

definition required_field :: "(string \<rightharpoonup> jvalue) \<Rightarrow> string \<Rightarrow> jvalue" where
  "required_field d k = (case d k of None \<Rightarrow> JStr ''Unknown'' | Some v \<Rightarrow> v)"

definition fill_required_fields :: "(string \<rightharpoonup> jvalue) \<Rightarrow> evaluation" where
  "fill_required_fields d =
     \<lparr> match_score = required_field d ''match_score'',
       reasoning = required_field d ''reasoning'',
       feature_match = required_field d ''feature_match'',
       quality_assessment = required_field d ''quality_assessment'' \<rparr>"

text \<open>Whether \<^verbatim>\<open>v[:100]\<close> evaluates: a string or a list.\<close>

fun sliceable :: "jvalue \<Rightarrow> bool" where
  "sliceable (JStr s) = True"
| "sliceable JArr = True"
| "sliceable (JNum q) = False"
| "sliceable (JBool b) = False"
| "sliceable JNull = False"
| "sliceable JObj = False"

text \<open>
  \<^verbatim>\<open>llm_evaluate_listing(listing, user_criteria)\<close>. The inner \<^verbatim>\<open>except\<close> catches
  \<^verbatim>\<open>JSONDecodeError\<close> and \<^verbatim>\<open>ValueError\<close>, the outer one every other exception, among
  them the one raised while printing \<^verbatim>\<open>evaluation['reasoning'][:100]\<close>.
\<close>

definition llm_evaluate_listing :: "scorer_env \<Rightarrow> listing \<Rightarrow> string \<Rightarrow> evaluation" where
  "llm_evaluate_listing sc l user_criteria =
     (if \<not> openai_available sc then fallback_evaluation ''LLM evaluation unavailable''
      else
        (case chat_completion sc l user_criteria of
           ApiRaises msg \<Rightarrow> fallback_evaluation (''Evaluation error: '' @ msg)
         | ApiText response_text \<Rightarrow>
             (let json_start = py_find CHR ''{'' response_text;
                  json_end = py_rfind CHR ''}'' response_text + 1
              in if json_start \<noteq> - 1 \<and> json_end \<noteq> - 1 then
                   (case json_loads sc (py_slice json_start json_end response_text) of
                      None \<Rightarrow> fallback_evaluation ''Failed to parse LLM response''
                    | Some d \<Rightarrow>
                        (let ev = fill_required_fields d
                         in if sliceable (reasoning ev) then ev
                            else fallback_evaluation
                                   (''Evaluation error: '' @ slice_error_text sc (reasoning ev))))
                 else fallback_evaluation ''Failed to parse LLM response'')))"


text \<open>\<^verbatim>\<open>listing.copy()\<close> with the evaluation stored under the key \<^verbatim>\<open>evaluation\<close>.\<close>

definition with_evaluation :: "listing \<Rightarrow> evaluation \<Rightarrow> evaluated_listing" where
  "with_evaluation l ev =
     \<lparr> listing_id = listing_id l, url = url l, title = title l,
       text_content = text_content l, price = price l, location_zip = location_zip l,
       evaluation = ev \<rparr>"

text \<open>The evaluation loop of the entry point: every new listing, in order.\<close>

definition evaluate_listings ::
  "scorer_env \<Rightarrow> string \<Rightarrow> listing list \<Rightarrow> evaluated_listing list" where
  "evaluate_listings sc user_criteria new_listings =
     map (\<lambda>l. with_evaluation l (llm_evaluate_listing sc l user_criteria)) new_listings"

section \<open>The store of seen identifiers\<close>

text \<open>
  The Firestore collection \<^verbatim>\<open>seen_listings\<close>: per search hash the array \<^verbatim>\<open>listing_ids\<close> of
  its document (a document without that field reads as the empty list, as
  \<^verbatim>\<open>data.get('listing_ids', [])\<close> does). \<open>client_available\<close> says whether
  \<^verbatim>\<open>firestore_client\<close> is set. A run sends the store at most three requests, and each
  may raise on its own: the \<^verbatim>\<open>doc_ref.get()\<close> of \<^verbatim>\<open>get_seen_listing_ids\<close>
  (\<open>seen_read_raises\<close>), the \<^verbatim>\<open>doc_ref.get()\<close> with which \<^verbatim>\<open>save_listing_ids\<close> reads the
  existing identifiers (\<open>save_read_raises\<close>), and its \<^verbatim>\<open>doc_ref.set(...)\<close>
  (\<open>write_raises\<close>).
\<close>

record firestore =
  client_available :: bool
  seen_read_raises :: bool
  save_read_raises :: bool
  write_raises :: bool
  seen_listings :: "string \<rightharpoonup> string list"

text \<open>
  The identifiers the store holds for a search hash, whether or not a request for them
  would succeed.
\<close>

definition recorded :: "firestore \<Rightarrow> string \<Rightarrow> string set" where
  "recorded fs search_hash =
     (case seen_listings fs search_hash of None \<Rightarrow> {} | Some ids \<Rightarrow> set ids)"

definition get_seen_listing_ids :: "firestore \<Rightarrow> string \<Rightarrow> string list" where
  "get_seen_listing_ids fs search_hash =
     (if \<not> client_available fs then []
      else if seen_read_raises fs then []
      else (case seen_listings fs search_hash of
              Some seen_ids \<Rightarrow> seen_ids
            | None \<Rightarrow> []))"

text \<open>
  \<^verbatim>\<open>save_listing_ids\<close> of \<^verbatim>\<open>src/backend/main.py\<close>: the value returned and the store
  afterwards. \<^verbatim>\<open>list(set(existing_ids + listing_ids))\<close> holds each identifier once, in an
  order Python does not fix; \<open>remdups\<close> gives one such list.
\<close>

definition save_listing_ids :: "firestore \<Rightarrow> string \<Rightarrow> string list \<Rightarrow> bool \<times> firestore" where
  "save_listing_ids fs search_hash listing_ids =
     (if \<not> client_available fs then (False, fs)
      else if listing_ids = [] then (True, fs)
      else if save_read_raises fs then (False, fs)
      else
        (let existing_ids = (case seen_listings fs search_hash of
                               Some ids \<Rightarrow> ids
                             | None \<Rightarrow> []);
             all_ids = remdups (existing_ids @ listing_ids)
         in if write_raises fs then (False, fs)
            else (True, fs\<lparr>seen_listings := (seen_listings fs)(search_hash \<mapsto> all_ids)\<rparr>)))"

text \<open>
  \<^verbatim>\<open>save_listing_ids\<close> of the root-level \<^verbatim>\<open>src/main.py\<close>: it writes the list it is given
  without reading the document first.
\<close>

definition save_listing_ids_root :: "firestore \<Rightarrow> string \<Rightarrow> string list \<Rightarrow> bool \<times> firestore" where
  "save_listing_ids_root fs search_hash listing_ids =
     (if \<not> client_available fs then (False, fs)
      else if listing_ids = [] then (True, fs)
      else if write_raises fs then (False, fs)
      else (True, fs\<lparr>seen_listings := (seen_listings fs)(search_hash \<mapsto> listing_ids)\<rparr>))"

section \<open>The entry point\<close>

text \<open>
  \<^verbatim>\<open>STRICTNESS_THRESHOLDS\<close>. The values are the floats Python reads from the literals
  \<^verbatim>\<open>0.50\<close>, \<^verbatim>\<open>0.70\<close> and \<^verbatim>\<open>0.85\<close>.
\<close>

definition STRICTNESS_THRESHOLDS :: "string \<rightharpoonup> rat" where
  "STRICTNESS_THRESHOLDS =
     [''less_strict'' \<mapsto> 1 / 2,
      ''strict'' \<mapsto> 3152519739159347 / 4503599627370496,
      ''very_strict'' \<mapsto> 7656119366529843 / 9007199254740992]"

text \<open>
  The configuration of one run, after the request has been parsed and the defaults filled
  in. \<open>user_id\<close> and \<open>task_id\<close> are \<open>None\<close> for Python's \<^verbatim>\<open>None\<close>.
\<close>

record run_config =
  location :: string
  distance :: string
  search_query :: string
  strictness :: string
  user_id :: "string option"
  task_id :: "string option"
  enable_initial_scrape :: bool
  initial_scrape_count :: int
  seed_seen_set :: bool

text \<open>
  The world of one run: the store, the web, the scorer, \<^verbatim>\<open>format_llm_query\<close> (a request to
  the language model), whether the task is active (the check before the store is read),
  what \<^verbatim>\<open>send_notification_via_discord\<close> returns for a list of matches, and the library
  functions \<^verbatim>\<open>hashlib.md5(...).hexdigest()\<close> and \<^verbatim>\<open>str.lower\<close>.
\<close>

record world =
  store :: firestore
  web :: scrape_env
  scorer :: scorer_env
  format_llm_query :: "string \<Rightarrow> string"
  task_is_active :: bool
  discord_delivers :: "evaluated_listing list \<Rightarrow> bool"
  md5_hexdigest :: "string \<Rightarrow> string"
  lower :: "string \<Rightarrow> string"

text \<open>
  Python's truth value of an optional string, and the text of one that is truthy (it is
  read in no other case).
\<close>

definition truthy :: "string option \<Rightarrow> bool" where
  "truthy s = (case s of None \<Rightarrow> False | Some v \<Rightarrow> v \<noteq> [])"

definition text_of :: "string option \<Rightarrow> string" where
  "text_of s = (case s of None \<Rightarrow> [] | Some v \<Rightarrow> v)"

definition create_search_hash ::
  "world \<Rightarrow> string \<Rightarrow> string \<Rightarrow> string \<Rightarrow> string option \<Rightarrow> string option \<Rightarrow> string" where
  "create_search_hash w query loc radius uid tid =
     (let base = lower w query @ ''_'' @ loc @ ''_'' @ radius
      in if truthy uid \<and> truthy tid then
           md5_hexdigest w (base @ ''_'' @ text_of uid @ ''_'' @ text_of tid)
         else if truthy uid then md5_hexdigest w (base @ ''_'' @ text_of uid)
         else md5_hexdigest w base)"

text \<open>The JSON body of a response with status 200.\<close>

record response_body =
  message :: string
  total_listings :: nat
  new_listings :: nat
  recommended_listings :: nat
  notification_sent :: bool
  strictness_used :: string
  sample_listings :: "evaluated_listing list"

text \<open>
  A response: status 200 with a body, or status 500 for an exception that reached the
  outer \<^verbatim>\<open>except\<close> of the entry point.
\<close>

datatype response = Ok200 response_body | Err500 py_error

text \<open>
  The calls a run makes, in order: \<open>Scrape\<close> for a call of \<^verbatim>\<open>scrape_new_listings_data\<close>,
  \<open>Evaluate i\<close> for a call of \<^verbatim>\<open>llm_evaluate_listing\<close> on the listing with identifier
  \<open>i\<close>, \<open>Notify\<close> for a call of \<^verbatim>\<open>send_notification_via_discord\<close> and \<open>Save ids\<close> for a
  call of \<^verbatim>\<open>save_listing_ids\<close>.
\<close>

datatype call = Scrape | Evaluate string | Notify | Save "string list"

record run_result =
  response :: response
  store_after :: firestore
  calls :: "call list"

definition no_listings_body :: "string \<Rightarrow> string \<Rightarrow> response_body" where
  "no_listings_body msg strict =
     \<lparr> message = msg, total_listings = 0, new_listings = 0, recommended_listings = 0,
       notification_sent = False, strictness_used = strict, sample_listings = [] \<rparr>"

text \<open>
  The seeding branch (\<^verbatim>\<open>if seed_seen_set:\<close>): one listing is scraped as on an initial run
  and its identifier saved.
\<close>

definition seeding_run :: "world \<Rightarrow> run_config \<Rightarrow> string \<Rightarrow> run_result" where
  "seeding_run w cfg search_hash =
     (let temp_listings = scrape_new_listings_data (web w) True 1 None
      in case temp_listings of
           [] \<Rightarrow>
             \<lparr> response = Ok200 (no_listings_body ''No listings found for seeding'' (strictness cfg)),
               store_after = store w, calls = [Scrape] \<rparr>
         | most_recent # rest \<Rightarrow>
             \<lparr> response = Ok200 (no_listings_body ''Seeding completed successfully''
                                   (strictness cfg)),
               store_after = snd (save_listing_ids (store w) search_hash [listing_id most_recent]),
               calls = [Scrape, Save [listing_id most_recent]] \<rparr>)"

text \<open>
  The rest of the entry point, from \<^verbatim>\<open>is_initial_run = ...\<close> on. The value returned by
  \<^verbatim>\<open>save_listing_ids\<close> is not looked at. The last save stands under \<^verbatim>\<open>if listings:\<close> in
  the source, which holds on that path, where \<^verbatim>\<open>new_listings = listings\<close> is not empty.
  The threshold is looked up (\<^verbatim>\<open>STRICTNESS_THRESHOLDS[user_strictness]\<close>) after the
  evaluation loop; a \<^verbatim>\<open>KeyError\<close> there, or a \<^verbatim>\<open>TypeError\<close> in the filter, reaches the
  outer \<^verbatim>\<open>except\<close> of the entry point.
\<close>

definition monitoring_run ::
  "world \<Rightarrow> run_config \<Rightarrow> string \<Rightarrow> string set \<Rightarrow> run_result" where
  "monitoring_run w cfg search_hash seen_ids =
     (let user_strictness = strictness cfg;
          is_initial_run = (enable_initial_scrape cfg \<and> seen_ids = {});
          listings = scrape_new_listings_data (web w) is_initial_run
                       (initial_scrape_count cfg) (Some seen_ids)
      in if listings = [] \<and> \<not> (\<not> is_initial_run \<and> seen_ids \<noteq> {}) then
           \<lparr> response = Ok200 (no_listings_body
                 ''No listings found - search criteria may need adjustment'' user_strictness),
             store_after = store w, calls = [Scrape] \<rparr>
         else
           (let new_listings = listings
            in if new_listings = [] then
                 \<lparr> response = Ok200
                     \<lparr> message =
                         (if is_initial_run
                          then ''No listings found - search criteria may need adjustment''
                          else ''No new listings found - all listings have been processed previously''),
                       total_listings = length listings, new_listings = 0,
                       recommended_listings = 0, notification_sent = False,
                       strictness_used = user_strictness, sample_listings = [] \<rparr>,
                   store_after =
                     snd (save_listing_ids (store w) search_hash (map listing_id listings)),
                   calls = [Scrape, Save (map listing_id listings)] \<rparr>
               else
                 (let evaluated_listings =
                        evaluate_listings (scorer w) (search_query cfg) new_listings;
                      evaluations = map (\<lambda>l. Evaluate (listing_id l)) new_listings
                  in case STRICTNESS_THRESHOLDS user_strictness of
                       None \<Rightarrow>
                         \<lparr> response = Err500 KeyError, store_after = store w,
                           calls = Scrape # evaluations \<rparr>
                     | Some threshold \<Rightarrow>
                         (case get_production_listings evaluated_listings threshold of
                            Inl e \<Rightarrow>
                              \<lparr> response = Err500 e, store_after = store w,
                                calls = Scrape # evaluations \<rparr>
                          | Inr recommended \<Rightarrow>
                              \<lparr> response = Ok200
                                  \<lparr> message = ''Craigslist bot execution completed'',
                                    total_listings = length listings,
                                    new_listings = length new_listings,
                                    recommended_listings = length recommended,
                                    notification_sent =
                                      (if recommended \<noteq> [] then discord_delivers w recommended
                                       else False),
                                    strictness_used = user_strictness,
                                    sample_listings = take 3 recommended \<rparr>,
                                store_after =
                                  snd (save_listing_ids (store w) search_hash
                                         (map listing_id listings)),
                                calls = Scrape # evaluations
                                          @ (if recommended \<noteq> [] then [Notify] else [])
                                          @ [Save (map listing_id listings)] \<rparr>))))"

text \<open>
  \<^verbatim>\<open>craigslist_bot_entry_point\<close> of \<^verbatim>\<open>src/backend/main.py\<close>, for a configuration already
  parsed from the request. The bookkeeping of the task's history (reading the run count
  and writing log entries through \<^verbatim>\<open>task_api\<close>) is left out: it touches neither the
  Seen-Set nor the listings, and the model is of a run in which it does not raise.
\<close>

definition craigslist_bot_entry_point :: "world \<Rightarrow> run_config \<Rightarrow> run_result" where
  "craigslist_bot_entry_point w cfg =
     (let refined_query = format_llm_query w (search_query cfg);
          search_hash = create_search_hash w refined_query (location cfg) (distance cfg)
                          (user_id cfg) (task_id cfg)
      in if \<not> task_is_active w then
           \<lparr> response = Ok200 (no_listings_body ''Task is paused - skipping execution''
                                 (strictness cfg)),
             store_after = store w, calls = [] \<rparr>
         else
           (let seen_ids = set (get_seen_listing_ids (store w) search_hash)
            in if seed_seen_set cfg then seeding_run w cfg search_hash
               else monitoring_run w cfg search_hash seen_ids))"

text \<open>The search hash the entry point computes for a run.\<close>

definition search_hash_of :: "world \<Rightarrow> run_config \<Rightarrow> string" where
  "search_hash_of w cfg =
     create_search_hash w (format_llm_query w (search_query cfg)) (location cfg) (distance cfg)
       (user_id cfg) (task_id cfg)"

text \<open>The listings a run that is not seeding scrapes.\<close>

definition scraped_by_run :: "world \<Rightarrow> run_config \<Rightarrow> listing list" where
  "scraped_by_run w cfg =
     (let seen_ids = set (get_seen_listing_ids (store w) (search_hash_of w cfg))
      in scrape_new_listings_data (web w) (enable_initial_scrape cfg \<and> seen_ids = {})
           (initial_scrape_count cfg) (Some seen_ids))"

section \<open>Example inputs\<close>

text \<open>A listing page URL of the site, for the listing with the numeric identifier \<open>n\<close>.\<close>

definition example_url :: "string \<Rightarrow> string" where
  "example_url n = ''https://sfbay.craigslist.org/sfc/bik/d/road-bike/'' @ n @ ''.html''"

text \<open>The listing the scraper builds for that page when it stands at the index printed \<open>i\<close>.\<close>

definition example_listing :: "string \<Rightarrow> string \<Rightarrow> listing" where
  "example_listing i n =
     \<lparr> listing_id = ''dom_'' @ i @ ''_'' @ n, url = example_url n, title = ''road bike'',
       text_content = ''ridden twice'', price = ''$500'', location_zip = ''94105'' \<rparr>"

text \<open>An evaluated listing whose score is the number \<open>q\<close>.\<close>

definition example_scored :: "string \<Rightarrow> rat \<Rightarrow> evaluated_listing" where
  "example_scored n q =
     with_evaluation (example_listing ''0'' n)
       \<lparr> match_score = JNum q, reasoning = JStr ''close match'',
         feature_match = JStr ''good'', quality_assessment = JStr ''good'' \<rparr>"

text \<open>A search result element that links to that page.\<close>

definition example_dom :: "string \<Rightarrow> dom_element" where
  "example_dom n = \<lparr> href = Some (example_url n), link_text = ''road bike'' \<rparr>"

text \<open>
  A web on which the search page holds the given elements and every listing page loads.
\<close>

definition example_web :: "dom_element list \<Rightarrow> json_ld_listing list \<Rightarrow> scrape_env" where
  "example_web ds js =
     \<lparr> netloc = ''sfbay.craigslist.org'',
       fetch_search = Some \<lparr> dom_elements = ds, json_ld_listings = js \<rparr>,
       fetch_listing = (\<lambda>u. Some \<lparr> page_text = ''ridden twice'', page_price = ''$500'',
                                     page_zip = ''94105'' \<rparr>),
       py_hash = (\<lambda>s. int (length s)) \<rparr>"

definition example_numbers :: "string list" where
  "example_numbers =
     [''7855175150'', ''7862084694'', ''7881930891'', ''7890000004'', ''7899999995'']"

text \<open>A search page of fifty elements.\<close>

definition example_page50 :: scrape_env where
  "example_page50 = example_web (replicate 50 (example_dom ''7855175150'')) []"

text \<open>A store that works and holds the given documents.\<close>

definition example_store :: "(string \<rightharpoonup> string list) \<Rightarrow> firestore" where
  "example_store m =
     \<lparr> client_available = True, seen_read_raises = False, save_read_raises = False,
       write_raises = False, seen_listings = m \<rparr>"

text \<open>
  A scorer that answers for one listing, with some words before the JSON object, and
  whose request times out for every other listing.
\<close>

definition example_answer :: string where
  "example_answer = ''{\"match_score\": 0.9, \"reasoning\": \"right size\"}''"

definition example_scorer :: scorer_env where
  "example_scorer =
     \<lparr> openai_available = True,
       chat_completion = (\<lambda>l criteria. if listing_id l = ''dom_0_7855175150''
                                        then ApiText (''Here it is: '' @ example_answer)
                                        else ApiRaises ''request timed out''),
       json_loads = (\<lambda>s. if s = example_answer
                          then Some [''match_score'' \<mapsto> JNum (9 / 10),
                                     ''reasoning'' \<mapsto> JStr ''right size'']
                          else None),
       slice_error_text = (\<lambda>v. ''object is not subscriptable'') \<rparr>"

definition example_world :: "scrape_env \<Rightarrow> firestore \<Rightarrow> world" where
  "example_world env fs =
     \<lparr> store = fs, web = env, scorer = example_scorer, format_llm_query = (\<lambda>q. q),
       task_is_active = True, discord_delivers = (\<lambda>ls. True),
       md5_hexdigest = (\<lambda>s. s), lower = (\<lambda>s. s) \<rparr>"

definition example_config :: "string \<Rightarrow> run_config" where
  "example_config level =
     \<lparr> location = ''94105'', distance = ''15'', search_query = ''road bike'',
       strictness = level, user_id = Some ''u1'', task_id = Some ''t1'',
       enable_initial_scrape = True, initial_scrape_count = 6, seed_seen_set = False \<rparr>"

text \<open>A search page of four elements.\<close>

definition example_page4 :: scrape_env where
  "example_page4 =
     example_web [example_dom ''7855175150'', example_dom ''7862084694'',
                  example_dom ''7881930891'', example_dom ''7890000004''] []"

text \<open>
  Two JSON-LD items, with the titles of the repository's test
  \<^verbatim>\<open>test_listing_id_generation\<close>.
\<close>

definition example_json_ld :: json_ld_listing where
  "example_json_ld = \<lparr> jl_title = ''54cm Road Bike'', jl_price = ''500'',
                         jl_description = ''ridden twice'', jl_location = ''San Francisco'' \<rparr>"

definition example_json_ld_new :: json_ld_listing where
  "example_json_ld_new = \<lparr> jl_title = ''NEW 48cm Bike'', jl_price = ''400'',
                             jl_description = ''as new'', jl_location = ''Oakland'' \<rparr>"


text \<open>A web on which fetching the search page raises.\<close>

definition example_web_down :: scrape_env where
  "example_web_down = (example_web [] [])\<lparr> fetch_search := None \<rparr>"

text \<open>
  A store that holds one seen identifier and on which the read of
  \<^verbatim>\<open>get_seen_listing_ids\<close> raises while \<^verbatim>\<open>save_listing_ids\<close> works, and an empty store
  whose write raises.
\<close>

definition example_store_unreadable :: firestore where
  "example_store_unreadable =
     (example_store [''road bike_94105_15_u1_t1'' \<mapsto> [''dom_0_7855175150'']])
       \<lparr> seen_read_raises := True \<rparr>"

definition example_store_unwritable :: firestore where
  "example_store_unwritable = (example_store Map.empty)\<lparr> write_raises := True \<rparr>"

section \<open>Properties\<close>

subsection \<open>The scraping loop\<close>

lemma scrape_loop_initial_ignores_seen:
  "scrape_loop env doms True seen_ids bound i es = scrape_loop env doms True None bound i es"
  by (induction es arbitrary: bound i) (auto split: prod.splits option.splits)

lemma scrape_loop_takeWhile:
  "scrape_loop env doms False seen_ids bound i es =
     takeWhile (\<lambda>l. \<not> seen_hit seen_ids (listing_id l))
       (scrape_loop env doms True None bound i es)"
  by (induction es arbitrary: bound i) (auto split: prod.splits option.splits)

lemma scrape_loop_length:
  "length (scrape_loop env doms is_initial_run seen_ids bound i es) \<le> length es"
  by (induction es arbitrary: bound i) (auto split: prod.splits option.splits simp: le_SucI)

lemma scrape_incremental_unseen:
  "l \<in> set (scrape_new_listings_data env False n (Some S)) \<Longrightarrow> S \<noteq> {} \<Longrightarrow> listing_id l \<notin> S"
  by (auto simp add: scrape_new_listings_data_def scrape_loop_takeWhile seen_hit_def
        split: option.splits dest!: set_takeWhileD)

lemma scrape_initial_length:
  "0 \<le> n \<Longrightarrow> length (scrape_new_listings_data env True n seen_ids) \<le> nat n"
proof (cases "fetch_search env")
  case None
  then show ?thesis by (simp add: scrape_new_listings_data_def)
next
  case (Some pg)
  assume n: "0 \<le> n"
  have "length (scrape_new_listings_data env True n seen_ids)
          \<le> length (py_prefix n (listing_elements_of pg))"
    using Some by (simp add: scrape_new_listings_data_def scrape_loop_length)
  also have "\<dots> \<le> nat n" using n by (simp add: py_prefix_def)
  finally show ?thesis .
qed

lemma scrape_initial_ignores_seen:
  "scrape_new_listings_data env True n seen_ids = scrape_new_listings_data env True n None"
  by (simp add: scrape_new_listings_data_def scrape_loop_initial_ignores_seen [of _ _ seen_ids]
        split: option.splits)

subsection \<open>The examples, evaluated\<close>

lemma str_nat_digits:
  "str_nat 0 = ''0''" "str_nat 1 = ''1''" "str_nat 2 = ''2''" "str_nat 3 = ''3''"
  "str_nat 4 = ''4''" "str_nat 5 = ''5''"
  by (simp_all add: str_nat.simps digit_char_def eval_nat_numeral)

lemma example_listing_ids:
  "listing_id (example_listing i n) = ''dom_'' @ i @ ''_'' @ n"
  by (simp add: example_listing_def)

lemma extract_example_url:
  "n \<in> set example_numbers \<Longrightarrow> extract_listing_id_from_url (example_url n) = Some n"
  by (auto simp add: example_numbers_def example_url_def extract_listing_id_from_url_def
        match_digits_html_def is_digit_def startswith_def)

lemma startswith_example_url: "\<not> startswith (example_url n) ''/''"
  by (simp add: example_url_def startswith_def)

lemma process_example_dom:
  "n \<in> set example_numbers \<Longrightarrow>
   process_dom (example_web ds js) bound i (example_dom n)
     = (Some (example_listing (str_nat i) n), bound)"
  unfolding process_dom_def
  by (simp add: example_dom_def extract_example_url absolute_url_def startswith_example_url
        example_web_def dom_listing_id_def example_listing_def)
     (simp add: example_url_def)

lemma fetched_four:
  "fetched_listings (example_web [example_dom ''7855175150'', example_dom ''7862084694'',
       example_dom ''7881930891'', example_dom ''7890000004''] [])
   = [example_listing ''0'' ''7855175150'', example_listing ''1'' ''7862084694'',
      example_listing ''2'' ''7881930891'', example_listing ''3'' ''7890000004'']"
  apply (simp add: fetched_listings_def)
  apply (simp add: example_web_def listing_elements_of_def)
  apply (simp add: process_example_dom [unfolded example_web_def] example_numbers_def)
  apply (simp add: str_nat.simps digit_char_def eval_nat_numeral)
  done

lemma scrape_page50:
  "scrape_new_listings_data example_page50 True 6 None =
     [example_listing ''0'' ''7855175150'', example_listing ''1'' ''7855175150'',
      example_listing ''2'' ''7855175150'', example_listing ''3'' ''7855175150'',
      example_listing ''4'' ''7855175150'', example_listing ''5'' ''7855175150'']"
proof -
  have six: "py_prefix 6 (listing_elements_of
                 \<lparr> dom_elements = replicate 50 (example_dom ''7855175150''),
                   json_ld_listings = [] \<rparr>)
        = replicate 6 (Dom (example_dom ''7855175150''))"
    by (simp add: py_prefix_def listing_elements_of_def)
  have n: "''7855175150'' \<in> set example_numbers" by (simp add: example_numbers_def)
  show ?thesis
    unfolding example_page50_def scrape_new_listings_data_def
    apply (simp add: example_web_def six [simplified])
    apply (simp add: eval_nat_numeral process_example_dom [OF n, unfolded example_web_def])
    apply (simp add: str_nat_digits [simplified eval_nat_numeral, simplified] str_nat.simps
             digit_char_def)
    done
qed

subsection \<open>The entry point\<close>

lemma entry_point_unfold:
  "craigslist_bot_entry_point w cfg =
     (if \<not> task_is_active w then
        \<lparr> response = Ok200 (no_listings_body ''Task is paused - skipping execution''
                              (strictness cfg)),
          store_after = store w, calls = [] \<rparr>
      else if seed_seen_set cfg then seeding_run w cfg (search_hash_of w cfg)
      else monitoring_run w cfg (search_hash_of w cfg)
             (set (get_seen_listing_ids (store w) (search_hash_of w cfg))))"
  by (simp add: craigslist_bot_entry_point_def search_hash_of_def Let_def)

lemma monitoring_run_initial:
  assumes "enable_initial_scrape cfg"
    and ls: "ls = scrape_new_listings_data (web w) True (initial_scrape_count cfg) None"
  shows "(\<forall>b. response (monitoring_run w cfg h {}) = Ok200 b \<longrightarrow>
            total_listings b = length ls \<and> new_listings b = length ls)
       \<and> (ls \<noteq> [] \<longrightarrow> take (Suc (length ls)) (calls (monitoring_run w cfg h {}))
              = Scrape # map (\<lambda>l. Evaluate (listing_id l)) ls)"
  using assms
  by (auto simp add: monitoring_run_def Let_def scrape_initial_ignores_seen [of _ _ "Some {}"]
        no_listings_body_def split: option.splits sum.splits)

subsection \<open>Early stop of an incremental run\<close>

text \<open>
  C2. Early stop of an incremental run: the run returns exactly the longest prefix of the
  page's listings, in rank order, that comes before the first listing whose identifier
  is in the Seen-Set. In particular, when the page's listings are \<open>[A, B, C, D]\<close>, the
  identifiers of \<open>B\<close>, \<open>C\<close> and \<open>D\<close> are in the Seen-Set and that of \<open>A\<close> is not, the run
  returns exactly \<open>[A]\<close>. (The page's listings are those the scraper can build; an element
  it has to skip is never compared with the Seen-Set.)
\<close>

theorem early_stop_returns_unseen_prefix:
  "scrape_new_listings_data env False n seen_ids =
     takeWhile (\<lambda>l. \<not> seen_hit seen_ids (listing_id l)) (fetched_listings env)
   \<and> (fetched_listings env = [A, B, C, D] \<and> listing_id A \<notin> S \<and> listing_id B \<in> S
        \<and> listing_id C \<in> S \<and> listing_id D \<in> S
       \<longrightarrow> scrape_new_listings_data env False n (Some S) = [A])"
proof -
  have prefix: "scrape_new_listings_data env False n ids =
     takeWhile (\<lambda>l. \<not> seen_hit ids (listing_id l)) (fetched_listings env)" for ids
    by (simp add: scrape_new_listings_data_def fetched_listings_def scrape_loop_takeWhile
          split: option.splits)
  have "scrape_new_listings_data env False n (Some S) = [A]"
    if "fetched_listings env = [A, B, C, D]" "listing_id A \<notin> S" "listing_id B \<in> S"
    using that by (auto simp add: prefix seen_hit_def)
  with prefix show ?thesis by blast
qed

theorem early_stop_returns_unseen_prefix_witness:
  "fetched_listings (example_web [example_dom ''7855175150'', example_dom ''7862084694'',
       example_dom ''7881930891'', example_dom ''7890000004''] [])
   = [example_listing ''0'' ''7855175150'', example_listing ''1'' ''7862084694'',
      example_listing ''2'' ''7881930891'', example_listing ''3'' ''7890000004'']
   \<and> scrape_new_listings_data
        (example_web [example_dom ''7855175150'', example_dom ''7862084694'',
           example_dom ''7881930891'', example_dom ''7890000004''] [])
        False 6 (Some {''dom_1_7862084694'', ''dom_2_7881930891'', ''dom_3_7890000004''})
      = [example_listing ''0'' ''7855175150'']"
  using early_stop_returns_unseen_prefix
    [of "example_web [example_dom ''7855175150'', example_dom ''7862084694'',
           example_dom ''7881930891'', example_dom ''7890000004''] []" 6 None
        "example_listing ''0'' ''7855175150''" "example_listing ''1'' ''7862084694''"
        "example_listing ''2'' ''7881930891''" "example_listing ''3'' ''7890000004''"
        "{''dom_1_7862084694'', ''dom_2_7881930891'', ''dom_3_7890000004''}"]
  by (simp add: fetched_four example_listing_ids)

subsection \<open>The threshold filter\<close>

lemma get_production_listings_numeric:
  "(\<And>l. l \<in> set ls \<Longrightarrow> \<exists>q. match_score (evaluation l) = JNum q) \<Longrightarrow>
   get_production_listings ls threshold =
     Inr (filter (\<lambda>l. case match_score (evaluation l) of JNum q \<Rightarrow> threshold \<le> q | _ \<Rightarrow> False) ls)"
proof (induction ls)
  case Nil
  show ?case by simp
next
  case (Cons l ls)
  from Cons.prems obtain q where q: "match_score (evaluation l) = JNum q"
    by auto
  have "get_production_listings ls threshold =
     Inr (filter (\<lambda>l. case match_score (evaluation l) of JNum q \<Rightarrow> threshold \<le> q | _ \<Rightarrow> False) ls)"
    using Cons.IH Cons.prems by simp
  with q show ?case by simp
qed

text \<open>
  C8. The filter keeps a listing exactly when its score is greater than or equal to the
  threshold: on listings whose scores are numbers the result is the input filtered by
  \<open>threshold \<le> score\<close>, in input order, and a listing whose score equals the threshold is
  in the output.
\<close>

theorem threshold_boundary_inclusive:
  assumes "\<forall>l \<in> set ls. \<exists>q. match_score (evaluation l) = JNum q"
  shows "get_production_listings ls threshold =
           Inr (filter (\<lambda>l. case match_score (evaluation l) of
                               JNum q \<Rightarrow> threshold \<le> q | _ \<Rightarrow> False) ls)
         \<and> (\<forall>l \<in> set ls. match_score (evaluation l) = JNum threshold \<longrightarrow>
               (\<exists>kept. get_production_listings ls threshold = Inr kept \<and> l \<in> set kept))"
proof -
  have eq: "get_production_listings ls threshold =
           Inr (filter (\<lambda>l. case match_score (evaluation l) of
                               JNum q \<Rightarrow> threshold \<le> q | _ \<Rightarrow> False) ls)"
    using assms by (intro get_production_listings_numeric) blast
  show ?thesis
  proof (intro conjI ballI impI)
    show "get_production_listings ls threshold =
           Inr (filter (\<lambda>l. case match_score (evaluation l) of
                               JNum q \<Rightarrow> threshold \<le> q | _ \<Rightarrow> False) ls)"
      by (rule eq)
  next
    fix l assume "l \<in> set ls" and "match_score (evaluation l) = JNum threshold"
    then show "\<exists>kept. get_production_listings ls threshold = Inr kept \<and> l \<in> set kept"
      unfolding eq by simp
  qed
qed

theorem threshold_boundary_inclusive_witness:
  "match_score (evaluation (example_scored ''1'' (7 / 10))) = JNum (7 / 10)
   \<and> match_score (evaluation (example_scored ''2'' (2 / 5))) = JNum (2 / 5)
   \<and> get_production_listings [example_scored ''1'' (7 / 10), example_scored ''2'' (2 / 5)] (7 / 10)
       = Inr [example_scored ''1'' (7 / 10)]"
  using threshold_boundary_inclusive
          [of "[example_scored ''1'' (7 / 10), example_scored ''2'' (2 / 5)]" "7 / 10"]
  by (simp add: example_scored_def with_evaluation_def)

subsection \<open>Initial runs\<close>

lemma monitoring_run_evaluates:
  "Evaluate i \<in> set (calls (monitoring_run w cfg h S)) \<Longrightarrow>
   i \<in> listing_id ` set (scrape_new_listings_data (web w)
          (enable_initial_scrape cfg \<and> S = {}) (initial_scrape_count cfg) (Some S))"
  by (auto simp add: monitoring_run_def Let_def split: option.splits sum.splits if_splits)

text \<open>
  C7. An initial run with limit 6 returns at most 6 listings, however many elements the
  page holds (fifty, say); it stops nowhere early, since its result does not depend on the
  Seen-Set it is given; and the entry point treats every listing returned as new: it
  reports as many new listings as listings scraped, and evaluates each of them in order.
\<close>

theorem initial_run_bounded:
  "length (scrape_new_listings_data env True 6 seen_ids) \<le> 6
   \<and> scrape_new_listings_data env True 6 seen_ids = scrape_new_listings_data env True 6 None
   \<and> (task_is_active w \<and> \<not> seed_seen_set cfg \<and> enable_initial_scrape cfg
        \<and> initial_scrape_count cfg = 6
        \<and> get_seen_listing_ids (store w) (search_hash_of w cfg) = []
       \<longrightarrow> (\<forall>b. response (craigslist_bot_entry_point w cfg) = Ok200 b \<longrightarrow>
              total_listings b = length (scrape_new_listings_data (web w) True 6 None)
              \<and> new_listings b = length (scrape_new_listings_data (web w) True 6 None))
           \<and> (scrape_new_listings_data (web w) True 6 None \<noteq> [] \<longrightarrow>
                take (Suc (length (scrape_new_listings_data (web w) True 6 None)))
                  (calls (craigslist_bot_entry_point w cfg))
                = Scrape # map (\<lambda>l. Evaluate (listing_id l))
                             (scrape_new_listings_data (web w) True 6 None)))"
proof (intro conjI impI)
  show "length (scrape_new_listings_data env True 6 seen_ids) \<le> 6"
    using scrape_initial_length [of 6 env seen_ids] by simp
  show "scrape_new_listings_data env True 6 seen_ids = scrape_new_listings_data env True 6 None"
    by (rule scrape_initial_ignores_seen)
next
  assume h: "task_is_active w \<and> \<not> seed_seen_set cfg \<and> enable_initial_scrape cfg
        \<and> initial_scrape_count cfg = 6
        \<and> get_seen_listing_ids (store w) (search_hash_of w cfg) = []"
  then have run: "craigslist_bot_entry_point w cfg = monitoring_run w cfg (search_hash_of w cfg) {}"
    by (simp add: entry_point_unfold)
  have ls: "scrape_new_listings_data (web w) True 6 None
              = scrape_new_listings_data (web w) True (initial_scrape_count cfg) None"
    using h by simp
  from h have en: "enable_initial_scrape cfg" by simp
  note m = monitoring_run_initial [OF en ls, of "search_hash_of w cfg"]
  show "\<forall>b. response (craigslist_bot_entry_point w cfg) = Ok200 b \<longrightarrow>
              total_listings b = length (scrape_new_listings_data (web w) True 6 None)
              \<and> new_listings b = length (scrape_new_listings_data (web w) True 6 None)"
    unfolding run using m by blast
  show "take (Suc (length (scrape_new_listings_data (web w) True 6 None)))
                  (calls (craigslist_bot_entry_point w cfg))
                = Scrape # map (\<lambda>l. Evaluate (listing_id l))
                             (scrape_new_listings_data (web w) True 6 None)"
    if "scrape_new_listings_data (web w) True 6 None \<noteq> []"
    unfolding run using m that by blast
qed

lemma example_world_fields:
  "task_is_active (example_world env fs)" "web (example_world env fs) = env"
  "store (example_world env fs) = fs" "scorer (example_world env fs) = example_scorer"
  by (simp_all add: example_world_def)

lemma example_config_fields:
  "\<not> seed_seen_set (example_config level)" "enable_initial_scrape (example_config level)"
  "initial_scrape_count (example_config level) = 6" "strictness (example_config level) = level"
  "search_query (example_config level) = ''road bike''"
  by (simp_all add: example_config_def)

lemma example_hash:
  "search_hash_of (example_world env fs) (example_config level) = ''road bike_94105_15_u1_t1''"
  by (simp add: search_hash_of_def create_search_hash_def example_world_def example_config_def
        truthy_def text_of_def)

lemma example_store_empty: "get_seen_listing_ids (example_store Map.empty) h = []"
  by (simp add: get_seen_listing_ids_def example_store_def)

lemma example_evaluation:
  "llm_evaluate_listing example_scorer l c =
     (if listing_id l = ''dom_0_7855175150''
      then \<lparr> match_score = JNum (9 / 10), reasoning = JStr ''right size'',
             feature_match = JStr ''Unknown'', quality_assessment = JStr ''Unknown'' \<rparr>
      else fallback_evaluation ''Evaluation error: request timed out'')"
  by (simp add: llm_evaluate_listing_def example_scorer_def Let_def
        fill_required_fields_def required_field_def example_answer_def py_find_def py_rfind_def
        py_slice_def)

lemma example_evaluation_numeric:
  "\<exists>q. match_score (llm_evaluate_listing example_scorer l c) = JNum q"
proof (cases "listing_id l = ''dom_0_7855175150''")
  case True
  then have "match_score (llm_evaluate_listing example_scorer l c) = JNum (9 / 10)"
    by (simp add: example_evaluation)
  then show ?thesis by blast
next
  case False
  then have "match_score (llm_evaluate_listing example_scorer l c) = JNum (1 / 2)"
    by (simp add: example_evaluation fallback_evaluation_def)
  then show ?thesis by blast
qed

lemma example_run_ok:
  "\<exists>b. response (craigslist_bot_entry_point (example_world example_page50 (example_store Map.empty))
          (example_config ''less_strict'')) = Ok200 b"
proof -
  have numeric: "\<And>l. l \<in> set (evaluate_listings example_scorer c ls) \<Longrightarrow>
        \<exists>q. match_score (evaluation l) = JNum q" for c ls
    using example_evaluation_numeric
    by (auto simp add: evaluate_listings_def with_evaluation_def)
  show ?thesis
    by (simp add: entry_point_unfold example_world_fields example_config_fields example_hash
          example_store_empty monitoring_run_def Let_def scrape_initial_ignores_seen [of _ _ "Some {}"]
          scrape_page50 STRICTNESS_THRESHOLDS_def
          get_production_listings_numeric [OF numeric])
qed

theorem initial_run_bounded_witness:
  "length (listing_elements_of \<lparr> dom_elements = replicate 50 (example_dom ''7855175150''),
                                  json_ld_listings = [] \<rparr>) = 50
   \<and> length (scrape_new_listings_data example_page50 True 6
               (Some {''dom_0_7855175150''})) = 6
   \<and> (\<exists>b. response (craigslist_bot_entry_point
                (example_world example_page50 (example_store Map.empty))
                (example_config ''less_strict'')) = Ok200 b
          \<and> total_listings b = 6 \<and> new_listings b = 6)
   \<and> take 7 (calls (craigslist_bot_entry_point
                (example_world example_page50 (example_store Map.empty))
                (example_config ''less_strict'')))
      = [Scrape, Evaluate ''dom_0_7855175150'', Evaluate ''dom_1_7855175150'',
         Evaluate ''dom_2_7855175150'', Evaluate ''dom_3_7855175150'',
         Evaluate ''dom_4_7855175150'', Evaluate ''dom_5_7855175150'']"
  using initial_run_bounded
          [of example_page50 "Some {''dom_0_7855175150''}"
              "example_world example_page50 (example_store Map.empty)"
              "example_config ''less_strict''"]
        example_run_ok
  by (auto simp add: example_world_fields example_config_fields example_hash example_store_empty
        scrape_page50 example_listing_ids listing_elements_of_def eval_nat_numeral)

subsection \<open>What an incremental run returns\<close>

text \<open>
  C10. On a run that is not initial and is given a Seen-Set that is not empty, no listing
  returned has an identifier in that set; so no listing the entry point evaluates on such
  a run has one either.
\<close>

theorem incremental_output_unseen:
  "S \<noteq> {} \<longrightarrow>
     (\<forall>l \<in> set (scrape_new_listings_data env False n (Some S)). listing_id l \<notin> S)
     \<and> (task_is_active w \<and> \<not> seed_seen_set cfg
          \<and> set (get_seen_listing_ids (store w) (search_hash_of w cfg)) = S
         \<longrightarrow> (\<forall>i. Evaluate i \<in> set (calls (craigslist_bot_entry_point w cfg)) \<longrightarrow> i \<notin> S))"
proof (intro impI conjI ballI allI)
  fix l assume "S \<noteq> {}" "l \<in> set (scrape_new_listings_data env False n (Some S))"
  then show "listing_id l \<notin> S" by (simp add: scrape_incremental_unseen)
next
  fix i
  assume S: "S \<noteq> {}"
    and h: "task_is_active w \<and> \<not> seed_seen_set cfg
          \<and> set (get_seen_listing_ids (store w) (search_hash_of w cfg)) = S"
    and ev: "Evaluate i \<in> set (calls (craigslist_bot_entry_point w cfg))"
  from h have run: "craigslist_bot_entry_point w cfg = monitoring_run w cfg (search_hash_of w cfg) S"
    by (simp add: entry_point_unfold)
  from ev have "i \<in> listing_id ` set (scrape_new_listings_data (web w)
          (enable_initial_scrape cfg \<and> S = {}) (initial_scrape_count cfg) (Some S))"
    unfolding run by (rule monitoring_run_evaluates)
  with S obtain l where "l \<in> set (scrape_new_listings_data (web w) False
          (initial_scrape_count cfg) (Some S))" "i = listing_id l"
    by auto
  with S show "i \<notin> S" by (simp add: scrape_incremental_unseen)
qed

lemma scrape_incremental_takeWhile:
  "scrape_new_listings_data env False n seen_ids =
     takeWhile (\<lambda>l. \<not> seen_hit seen_ids (listing_id l)) (fetched_listings env)"
  by (simp add: scrape_new_listings_data_def fetched_listings_def scrape_loop_takeWhile
        split: option.splits)

lemma scrape_page4_incremental:
  "scrape_new_listings_data example_page4 False 6
     (Some {''dom_1_7862084694'', ''dom_2_7881930891''})
   = [example_listing ''0'' ''7855175150'']"
  by (simp add: scrape_incremental_takeWhile example_page4_def fetched_four
       seen_hit_def example_listing_ids)

lemma example_store_doc:
  "get_seen_listing_ids (example_store [h \<mapsto> ids]) h = ids"
  by (simp add: get_seen_listing_ids_def example_store_def)

lemma example_incremental_calls:
  "calls (craigslist_bot_entry_point
                (example_world example_page4
                   (example_store [''road bike_94105_15_u1_t1'' \<mapsto>
                                     [''dom_1_7862084694'', ''dom_2_7881930891'']]))
                (example_config ''strict''))
   = [Scrape, Evaluate ''dom_0_7855175150'', Notify, Save [''dom_0_7855175150'']]"
proof -
  have numeric: "\<And>l. l \<in> set (evaluate_listings example_scorer c ls) \<Longrightarrow>
        \<exists>q. match_score (evaluation l) = JNum q" for c ls
    using example_evaluation_numeric
    by (auto simp add: evaluate_listings_def with_evaluation_def)
  have two: "{''dom_1_7862084694'', ''dom_2_7881930891''} \<noteq> ({} :: string set)" by simp
  show ?thesis
    apply (simp add: entry_point_unfold example_world_fields example_config_fields example_hash
          example_store_doc monitoring_run_def Let_def
          scrape_page4_incremental STRICTNESS_THRESHOLDS_def
          get_production_listings_numeric [OF numeric])
    apply (simp add: evaluate_listings_def example_evaluation example_listing_ids with_evaluation_def)
    done
qed

theorem incremental_output_unseen_witness:
  "{''dom_1_7862084694'', ''dom_2_7881930891''} \<noteq> ({} :: string set)
   \<and> scrape_new_listings_data example_page4 False 6
        (Some {''dom_1_7862084694'', ''dom_2_7881930891''})
      = [example_listing ''0'' ''7855175150'']
   \<and> listing_id (example_listing ''0'' ''7855175150'')
        \<notin> {''dom_1_7862084694'', ''dom_2_7881930891''}
   \<and> Evaluate ''dom_0_7855175150''
        \<in> set (calls (craigslist_bot_entry_point
                (example_world example_page4
                   (example_store [''road bike_94105_15_u1_t1'' \<mapsto>
                                     [''dom_1_7862084694'', ''dom_2_7881930891'']]))
                (example_config ''strict'')))
   \<and> ''dom_0_7855175150'' \<notin> {''dom_1_7862084694'', ''dom_2_7881930891''}"
  using incremental_output_unseen
          [of "{''dom_1_7862084694'', ''dom_2_7881930891''}" example_page4 6
              "example_world example_page4
                   (example_store [''road bike_94105_15_u1_t1'' \<mapsto>
                                     [''dom_1_7862084694'', ''dom_2_7881930891'']])"
              "example_config ''strict''"]
  by (simp add: scrape_page4_incremental example_incremental_calls example_listing_ids)

subsection \<open>Listing identifiers and rank\<close>

text \<open>
  C1. The claim: the identifier of a listing is the same in any two fetches, whatever its
  rank, because it is built from the listing's own content. The code builds it from the
  index of the enumeration too. A listing that is first on the page gets the identifier
  \<^verbatim>\<open>dom_0_7855175150\<close> (or \<^verbatim>\<open>json_ld_0_14\<close> from the JSON-LD block); once a newer listing
  stands above it, the same listing gets \<^verbatim>\<open>dom_1_7855175150\<close> (or \<^verbatim>\<open>json_ld_1_14\<close>), is
  not found in the Seen-Set that holds its first identifier, and is returned again as new.
\<close>

theorem listing_id_changes_with_rank:
  "map listing_id (scrape_new_listings_data (example_web [example_dom ''7855175150''] [])
                     True 6 None)
     = [''dom_0_7855175150'']
   \<and> map listing_id (scrape_new_listings_data
                       (example_web [example_dom ''7862084694'', example_dom ''7855175150''] [])
                       False 6 (Some {''dom_0_7855175150''}))
     = [''dom_0_7862084694'', ''dom_1_7855175150'']
   \<and> map listing_id (scrape_new_listings_data (example_web [] [example_json_ld]) True 6 None)
     = [''json_ld_0_14'']
   \<and> map listing_id (scrape_new_listings_data
                       (example_web [] [example_json_ld_new, example_json_ld])
                       False 6 (Some {''json_ld_0_14''}))
     = [''json_ld_0_13'', ''json_ld_1_14'']"
proof (intro conjI)
  show "map listing_id (scrape_new_listings_data (example_web [example_dom ''7855175150''] [])
                     True 6 None)
     = [''dom_0_7855175150'']"
    by (simp add: scrape_new_listings_data_def example_web_def listing_elements_of_def
          py_prefix_def process_example_dom [unfolded example_web_def] example_numbers_def
          example_listing_ids str_nat_digits)
  show "map listing_id (scrape_new_listings_data
                       (example_web [example_dom ''7862084694'', example_dom ''7855175150''] [])
                       False 6 (Some {''dom_0_7855175150''}))
     = [''dom_0_7862084694'', ''dom_1_7855175150'']"
    by (simp add: scrape_new_listings_data_def example_web_def listing_elements_of_def
          process_example_dom [unfolded example_web_def] example_numbers_def
          example_listing_ids str_nat.simps digit_char_def seen_hit_def)
  show "map listing_id (scrape_new_listings_data (example_web [] [example_json_ld]) True 6 None)
     = [''json_ld_0_14'']"
    by (simp add: scrape_new_listings_data_def example_web_def listing_elements_of_def
          py_prefix_def process_json_ld_def example_json_ld_def json_ld_listing_id_def Let_def
          str_nat.simps digit_char_def)
  show "map listing_id (scrape_new_listings_data
                       (example_web [] [example_json_ld_new, example_json_ld])
                       False 6 (Some {''json_ld_0_14''}))
     = [''json_ld_0_13'', ''json_ld_1_14'']"
    by (simp add: scrape_new_listings_data_def example_web_def listing_elements_of_def
          process_json_ld_def example_json_ld_def example_json_ld_new_def
          json_ld_listing_id_def Let_def seen_hit_def str_nat.simps digit_char_def)
qed

subsection \<open>A scorer that fails\<close>





lemma seeding_run_ok: "\<exists>b. response (seeding_run w cfg h) = Ok200 b"
  by (simp add: seeding_run_def Let_def split: list.splits)



subsection \<open>A search page that cannot be fetched\<close>

lemma scrape_fetch_failure:
  "fetch_search env = None \<Longrightarrow> scrape_new_listings_data env is_initial_run n seen_ids = []"
  by (simp add: scrape_new_listings_data_def)

lemma scrape_empty_page:
  "fetch_search env = Some empty_page \<Longrightarrow>
   scrape_new_listings_data env is_initial_run n seen_ids = []"
  by (simp add: scrape_new_listings_data_def empty_page_def listing_elements_of_def
        py_prefix_def Let_def)

lemma monitoring_run_same_listings:
  assumes ls: "scrape_new_listings_data (web w) (enable_initial_scrape cfg \<and> S = {})
             (initial_scrape_count cfg) (Some S)
           = scrape_new_listings_data (web w') (enable_initial_scrape cfg \<and> S = {})
             (initial_scrape_count cfg) (Some S)"
    and sc: "scorer w = scorer w'" and dd: "discord_delivers w = discord_delivers w'"
  shows "response (monitoring_run w cfg h S) = response (monitoring_run w' cfg h S)"
    and "calls (monitoring_run w cfg h S) = calls (monitoring_run w' cfg h S)"
    and "store w = store w' \<Longrightarrow> monitoring_run w cfg h S = monitoring_run w' cfg h S"
proof -
  define init where "init = (enable_initial_scrape cfg \<and> S = {})"
  define found where "found = scrape_new_listings_data (web w') init (initial_scrape_count cfg) (Some S)"
  have a: "scrape_new_listings_data (web w) init (initial_scrape_count cfg) (Some S) = found"
    using ls by (simp add: init_def found_def)
  show "response (monitoring_run w cfg h S) = response (monitoring_run w' cfg h S)"
    unfolding monitoring_run_def Let_def init_def [symmetric] a found_def [symmetric] sc dd
    by (simp split: option.splits sum.splits)
  show "calls (monitoring_run w cfg h S) = calls (monitoring_run w' cfg h S)"
    unfolding monitoring_run_def Let_def init_def [symmetric] a found_def [symmetric] sc dd
    by (simp split: option.splits sum.splits)
  show "monitoring_run w cfg h S = monitoring_run w' cfg h S" if "store w = store w'"
    unfolding monitoring_run_def Let_def init_def [symmetric] a found_def [symmetric] sc dd that
    by (simp split: option.splits sum.splits)
qed

lemma seeding_run_same_listings:
  assumes "scrape_new_listings_data (web w) True 1 None
           = scrape_new_listings_data (web w') True 1 None"
  shows "response (seeding_run w cfg h) = response (seeding_run w' cfg h)"
    and "calls (seeding_run w cfg h) = calls (seeding_run w' cfg h)"
    and "store w = store w' \<Longrightarrow> seeding_run w cfg h = seeding_run w' cfg h"
  using assms
  by (simp_all add: seeding_run_def Let_def split: list.splits)

lemma search_hash_of_cong:
  "format_llm_query w = format_llm_query w' \<Longrightarrow> md5_hexdigest w = md5_hexdigest w' \<Longrightarrow>
   lower w = lower w' \<Longrightarrow> search_hash_of w cfg = search_hash_of w' cfg"
  by (simp add: search_hash_of_def create_search_hash_def Let_def)

lemma monitoring_run_no_listings:
  assumes "scrape_new_listings_data (web w) (enable_initial_scrape cfg \<and> S = {})
             (initial_scrape_count cfg) (Some S) = []"
  shows "\<exists>b. response (monitoring_run w cfg h S) = Ok200 b \<and> total_listings b = 0
            \<and> new_listings b = 0"
  unfolding monitoring_run_def Let_def assms
  by (simp add: no_listings_body_def)

lemma seeding_run_no_listings:
  assumes "scrape_new_listings_data (web w) True 1 None = []"
  shows "\<exists>b. response (seeding_run w cfg h) = Ok200 b \<and> total_listings b = 0
            \<and> new_listings b = 0"
  using assms by (simp add: seeding_run_def Let_def no_listings_body_def)

text \<open>
  C4, as the code has it. When fetching the search page fails outright, the scraper
  returns no listing and the run reports zero listings; but nothing tells that outcome
  from the one of a run whose search page holds no item: the whole result of the run
  (response, store and calls) is the same as on the empty page.
\<close>

theorem fetch_failure_reads_as_no_listings:
  "fetch_search (web w) = None \<longrightarrow>
     scrape_new_listings_data (web w) is_initial_run n seen_ids = []
     \<and> (\<exists>b. response (craigslist_bot_entry_point w cfg) = Ok200 b \<and> total_listings b = 0
             \<and> new_listings b = 0)
     \<and> craigslist_bot_entry_point w cfg
         = craigslist_bot_entry_point (w\<lparr> web := (web w)\<lparr> fetch_search := Some empty_page \<rparr> \<rparr>) cfg"
proof (intro impI conjI)
  assume down: "fetch_search (web w) = None"
  let ?w' = "w\<lparr> web := (web w)\<lparr> fetch_search := Some empty_page \<rparr> \<rparr>"
  have none: "scrape_new_listings_data (web w) i k s = []" for i k s
    using down by (rule scrape_fetch_failure)
  have none': "scrape_new_listings_data ((web w)\<lparr> fetch_search := Some empty_page \<rparr>) i k s = []"
    for i k s
    by (rule scrape_empty_page) simp
  show "scrape_new_listings_data (web w) is_initial_run n seen_ids = []" by (rule none)
  show "\<exists>b. response (craigslist_bot_entry_point w cfg) = Ok200 b \<and> total_listings b = 0
             \<and> new_listings b = 0"
    using monitoring_run_no_listings [OF none] seeding_run_no_listings [OF none]
    by (simp add: entry_point_unfold no_listings_body_def)
  have hash: "search_hash_of ?w' cfg = search_hash_of w cfg"
    by (rule search_hash_of_cong) simp_all
  have m: "monitoring_run w cfg h S = monitoring_run ?w' cfg h S" for h S
    by (rule monitoring_run_same_listings(3)) (simp_all add: none none')
  have s: "seeding_run w cfg h = seeding_run ?w' cfg h" for h
    by (rule seeding_run_same_listings(3)) (simp_all add: none none')
  show "craigslist_bot_entry_point w cfg = craigslist_bot_entry_point ?w' cfg"
    by (simp add: entry_point_unfold hash m [symmetric] s [symmetric])
qed


lemma example_down_response:
  "response (craigslist_bot_entry_point (example_world example_web_down (example_store Map.empty))
      (example_config ''strict''))
   = Ok200 (no_listings_body ''No listings found - search criteria may need adjustment''
             ''strict'')"
  by (simp add: entry_point_unfold example_world_fields example_config_fields example_hash
        example_store_empty monitoring_run_def Let_def scrape_fetch_failure example_web_down_def)

lemma example_empty_response:
  "response (craigslist_bot_entry_point (example_world (example_web [] []) (example_store Map.empty))
      (example_config ''strict''))
   = Ok200 (no_listings_body ''No listings found - search criteria may need adjustment''
             ''strict'')"
  by (simp add: entry_point_unfold example_world_fields example_config_fields example_hash
        example_store_empty monitoring_run_def Let_def scrape_empty_page empty_page_def
        example_web_def)

theorem fetch_failure_reads_as_no_listings_witness:
  "fetch_search (web (example_world example_web_down (example_store Map.empty))) = None
   \<and> scrape_new_listings_data example_web_down True 6 None = []
   \<and> response (craigslist_bot_entry_point
                 (example_world example_web_down (example_store Map.empty))
                 (example_config ''strict''))
      = Ok200 (no_listings_body ''No listings found - search criteria may need adjustment''
                ''strict'')
   \<and> craigslist_bot_entry_point (example_world example_web_down (example_store Map.empty))
        (example_config ''strict'')
      = craigslist_bot_entry_point (example_world (example_web [] []) (example_store Map.empty))
          (example_config ''strict'')"
  using fetch_failure_reads_as_no_listings
          [of "example_world example_web_down (example_store Map.empty)" True 6 None
              "example_config ''strict''"]
        example_down_response
  by (simp add: example_world_def example_web_down_def example_web_def empty_page_def)

text \<open>
  The claim C4 as stated (a failed fetch is reported as an outcome distinct from "no item
  found") fails: with the site down and with an empty search page the run answers with
  the same response.
\<close>

theorem fetch_failure_counterexample:
  "response (craigslist_bot_entry_point
               (example_world example_web_down (example_store Map.empty))
               (example_config ''strict''))
   = Ok200 (no_listings_body ''No listings found - search criteria may need adjustment''
             ''strict'')
   \<and> response (craigslist_bot_entry_point
                 (example_world (example_web [] []) (example_store Map.empty))
                 (example_config ''strict''))
     = Ok200 (no_listings_body ''No listings found - search criteria may need adjustment''
               ''strict'')"
  using example_down_response example_empty_response by simp

subsection \<open>An unknown strictness name\<close>

lemma monitoring_run_unknown_strictness:
  assumes bad: "STRICTNESS_THRESHOLDS (strictness cfg) = None"
    and ls: "ls = scrape_new_listings_data (web w) (enable_initial_scrape cfg \<and> S = {})
                   (initial_scrape_count cfg) (Some S)"
  shows "ls \<noteq> [] \<Longrightarrow> monitoring_run w cfg h S =
            \<lparr> response = Err500 KeyError, store_after = store w,
              calls = Scrape # map (\<lambda>l. Evaluate (listing_id l)) ls \<rparr>"
    and "ls = [] \<Longrightarrow> \<exists>b. response (monitoring_run w cfg h S) = Ok200 b"
    and "\<exists>rest. calls (monitoring_run w cfg h S) = Scrape # rest"
  unfolding monitoring_run_def Let_def ls [symmetric] bad
  by simp_all

lemma seeding_run_calls: "\<exists>rest. calls (seeding_run w cfg h) = Scrape # rest"
  by (simp add: seeding_run_def Let_def split: list.splits)

text \<open>
  C5, as the code has it. A strictness name that is not one of the recognised levels is
  not checked before the fetch. Every run of an active task scrapes first. The name is
  looked up only after the listings found have been evaluated: a run that is not seeding
  and finds listings ends there with status 500 (the \<^verbatim>\<open>KeyError\<close> of the lookup), after
  the scrape and one evaluation per listing, and with nothing saved; a seeding run, and a
  run that finds no listing, never look the name up and end with status 200.
\<close>

theorem unknown_strictness_found_after_scrape:
  "strictness cfg \<notin> dom STRICTNESS_THRESHOLDS \<and> task_is_active w \<longrightarrow>
     (\<exists>rest. calls (craigslist_bot_entry_point w cfg) = Scrape # rest)
     \<and> (seed_seen_set cfg \<longrightarrow> (\<exists>b. response (craigslist_bot_entry_point w cfg) = Ok200 b))
     \<and> (\<not> seed_seen_set cfg \<and> scraped_by_run w cfg = [] \<longrightarrow>
           (\<exists>b. response (craigslist_bot_entry_point w cfg) = Ok200 b))
     \<and> (\<not> seed_seen_set cfg \<and> scraped_by_run w cfg \<noteq> [] \<longrightarrow>
           craigslist_bot_entry_point w cfg =
             \<lparr> response = Err500 KeyError, store_after = store w,
               calls = Scrape # map (\<lambda>l. Evaluate (listing_id l)) (scraped_by_run w cfg) \<rparr>)"
proof (intro impI conjI)
  assume h: "strictness cfg \<notin> dom STRICTNESS_THRESHOLDS \<and> task_is_active w"
  then have bad: "STRICTNESS_THRESHOLDS (strictness cfg) = None" by auto
  from h have act: "task_is_active w" by simp
  let ?S = "set (get_seen_listing_ids (store w) (search_hash_of w cfg))"
  have ls: "scraped_by_run w cfg = scrape_new_listings_data (web w)
              (enable_initial_scrape cfg \<and> ?S = {}) (initial_scrape_count cfg) (Some ?S)"
    by (simp add: scraped_by_run_def Let_def)
  note m = monitoring_run_unknown_strictness [OF bad ls, of "search_hash_of w cfg"]
  show "\<exists>rest. calls (craigslist_bot_entry_point w cfg) = Scrape # rest"
    using m(3) seeding_run_calls act by (simp add: entry_point_unfold)
  show "\<exists>b. response (craigslist_bot_entry_point w cfg) = Ok200 b" if "seed_seen_set cfg"
    using that act seeding_run_ok by (simp add: entry_point_unfold)
  show "\<exists>b. response (craigslist_bot_entry_point w cfg) = Ok200 b"
    if "\<not> seed_seen_set cfg \<and> scraped_by_run w cfg = []"
    using that act m(2) by (simp add: entry_point_unfold)
  show "craigslist_bot_entry_point w cfg =
             \<lparr> response = Err500 KeyError, store_after = store w,
               calls = Scrape # map (\<lambda>l. Evaluate (listing_id l)) (scraped_by_run w cfg) \<rparr>"
    if "\<not> seed_seen_set cfg \<and> scraped_by_run w cfg \<noteq> []"
    using that act m(1) by (simp add: entry_point_unfold)
qed

lemma example_scraped_page4:
  "scraped_by_run (example_world example_page4 (example_store Map.empty)) (example_config level)
   = [example_listing ''0'' ''7855175150'', example_listing ''1'' ''7862084694'',
      example_listing ''2'' ''7881930891'', example_listing ''3'' ''7890000004'']"
  apply (simp add: scraped_by_run_def example_world_fields example_config_fields example_hash
        example_store_empty Let_def scrape_initial_ignores_seen [of _ _ "Some {}"])
  apply (simp add: scrape_new_listings_data_def example_page4_def)
  apply (simp add: example_web_def listing_elements_of_def py_prefix_def
           process_example_dom [unfolded example_web_def] example_numbers_def)
  apply (simp add: str_nat.simps digit_char_def eval_nat_numeral)
  done


lemma unknown_strictness: "''strictest'' \<notin> dom STRICTNESS_THRESHOLDS"
  by (simp add: STRICTNESS_THRESHOLDS_def)

theorem unknown_strictness_found_after_scrape_witness:
  "strictness (example_config ''strictest'') \<notin> dom STRICTNESS_THRESHOLDS
   \<and> task_is_active (example_world example_page4 (example_store Map.empty))
   \<and> \<not> seed_seen_set (example_config ''strictest'')
   \<and> scraped_by_run (example_world example_page4 (example_store Map.empty))
        (example_config ''strictest'') \<noteq> []
   \<and> craigslist_bot_entry_point (example_world example_page4 (example_store Map.empty))
        (example_config ''strictest'')
      = \<lparr> response = Err500 KeyError, store_after = example_store Map.empty,
          calls = [Scrape, Evaluate ''dom_0_7855175150'', Evaluate ''dom_1_7862084694'',
                   Evaluate ''dom_2_7881930891'', Evaluate ''dom_3_7890000004''] \<rparr>"
  using unknown_strictness_found_after_scrape
          [of "example_config ''strictest''"
              "example_world example_page4 (example_store Map.empty)"]
  by (simp add: example_scraped_page4 example_config_fields example_world_fields
        unknown_strictness example_listing_ids)

lemma scrape_example_json_ld:
  "map listing_id (scrape_new_listings_data
                     (example_web [] [example_json_ld_new, example_json_ld]) True 6 seen_ids)
   = [''json_ld_0_13'', ''json_ld_1_14'']"
  by (simp add: scrape_new_listings_data_def example_web_def listing_elements_of_def
        py_prefix_def process_json_ld_def example_json_ld_def example_json_ld_new_def
        json_ld_listing_id_def Let_def str_nat.simps digit_char_def)

text \<open>
  The claim C5 as stated (a run with an unrecognised strictness name is rejected before
  any fetch, and no listing is scraped or evaluated) fails: for the name \<^verbatim>\<open>strictest\<close> the
  run scrapes the page and evaluates both listings before it fails, and on an empty page
  it is not rejected at all.
\<close>

theorem unknown_strictness_counterexample:
  "''strictest'' \<notin> dom STRICTNESS_THRESHOLDS
   \<and> response (craigslist_bot_entry_point
        (example_world (example_web [] [example_json_ld_new, example_json_ld])
           (example_store Map.empty))
        (example_config ''strictest'')) = Err500 KeyError
   \<and> calls (craigslist_bot_entry_point
        (example_world (example_web [] [example_json_ld_new, example_json_ld])
           (example_store Map.empty))
        (example_config ''strictest''))
     = [Scrape, Evaluate ''json_ld_0_13'', Evaluate ''json_ld_1_14'']
   \<and> response (craigslist_bot_entry_point
        (example_world (example_web [] []) (example_store Map.empty))
        (example_config ''strictest''))
     = Ok200 (no_listings_body ''No listings found - search criteria may need adjustment''
               ''strictest'')"
proof -
  have ne: "scrape_new_listings_data
              (example_web [] [example_json_ld_new, example_json_ld]) True 6 (Some {}) \<noteq> []"
    using scrape_example_json_ld [of "Some {}"] by auto
  have bad: "STRICTNESS_THRESHOLDS ''strictest'' = None"
    by (simp add: STRICTNESS_THRESHOLDS_def)
  have r: "craigslist_bot_entry_point
        (example_world (example_web [] [example_json_ld_new, example_json_ld])
           (example_store Map.empty))
        (example_config ''strictest'')
      = \<lparr> response = Err500 KeyError, store_after = example_store Map.empty,
          calls = Scrape # map Evaluate
                    (map listing_id (scrape_new_listings_data
                       (example_web [] [example_json_ld_new, example_json_ld]) True 6 (Some {}))) \<rparr>"
    using ne
    by (simp add: entry_point_unfold example_world_fields example_config_fields example_hash
          example_store_empty monitoring_run_def Let_def bad comp_def)
  have e: "response (craigslist_bot_entry_point
        (example_world (example_web [] []) (example_store Map.empty))
        (example_config ''strictest''))
     = Ok200 (no_listings_body ''No listings found - search criteria may need adjustment''
               ''strictest'')"
    by (simp add: entry_point_unfold example_world_fields example_config_fields example_hash
        example_store_empty monitoring_run_def Let_def scrape_empty_page empty_page_def
        example_web_def)
  show ?thesis
    using e by (simp add: r scrape_example_json_ld unknown_strictness)
qed

subsection \<open>A store that fails\<close>

lemma get_seen_read_failure:
  "seen_read_raises fs \<Longrightarrow> get_seen_listing_ids fs h = []"
  by (simp add: get_seen_listing_ids_def)

lemma save_failure_keeps_store:
  "save_read_raises fs \<or> write_raises fs \<Longrightarrow> snd (save_listing_ids fs h ids) = fs"
  by (auto simp add: save_listing_ids_def Let_def)

lemma save_failure_returns_False:
  "save_read_raises fs \<or> write_raises fs \<Longrightarrow> client_available fs \<Longrightarrow> ids \<noteq> [] \<Longrightarrow>
   \<not> fst (save_listing_ids fs h ids)"
  by (auto simp add: save_listing_ids_def Let_def)

lemma save_keeps_recorded:
  "recorded fs h' \<subseteq> recorded (snd (save_listing_ids fs h ids)) h'"
  by (auto simp add: recorded_def save_listing_ids_def Let_def split: option.splits)

lemma monitoring_run_store_failure:
  "save_read_raises (store w) \<or> write_raises (store w) \<Longrightarrow>
   store_after (monitoring_run w cfg h S) = store w"
  unfolding monitoring_run_def Let_def
  by (simp add: save_failure_keeps_store split: option.splits sum.splits)

lemma seeding_run_store_failure:
  "save_read_raises (store w) \<or> write_raises (store w) \<Longrightarrow>
   store_after (seeding_run w cfg h) = store w"
  unfolding seeding_run_def Let_def
  by (simp add: save_failure_keeps_store split: list.splits)

lemma entry_point_store_failure:
  "save_read_raises (store w) \<or> write_raises (store w) \<Longrightarrow>
   store_after (craigslist_bot_entry_point w cfg) = store w"
  by (simp add: entry_point_unfold monitoring_run_store_failure seeding_run_store_failure)

lemma monitoring_run_keeps_recorded:
  "recorded (store w) h' \<subseteq> recorded (store_after (monitoring_run w cfg h S)) h'"
  unfolding monitoring_run_def Let_def
  by (simp add: save_keeps_recorded split: option.splits sum.splits)

lemma seeding_run_keeps_recorded:
  "recorded (store w) h' \<subseteq> recorded (store_after (seeding_run w cfg h)) h'"
  unfolding seeding_run_def Let_def
  by (simp add: save_keeps_recorded split: list.splits)

lemma entry_point_keeps_recorded:
  "recorded (store w) h' \<subseteq> recorded (store_after (craigslist_bot_entry_point w cfg)) h'"
  by (simp add: entry_point_unfold monitoring_run_keeps_recorded seeding_run_keeps_recorded)

lemma entry_point_response_cong:
  assumes same: "web w = web w'" "scorer w = scorer w'" "discord_delivers w = discord_delivers w'"
    and lib: "format_llm_query w = format_llm_query w'" "md5_hexdigest w = md5_hexdigest w'"
      "lower w = lower w'"
    and act: "task_is_active w = task_is_active w'"
    and seen: "get_seen_listing_ids (store w) (search_hash_of w cfg)
       = get_seen_listing_ids (store w') (search_hash_of w cfg)"
  shows "response (craigslist_bot_entry_point w cfg) = response (craigslist_bot_entry_point w' cfg)"
    and "calls (craigslist_bot_entry_point w cfg) = calls (craigslist_bot_entry_point w' cfg)"
proof -
  have hash: "search_hash_of w' cfg = search_hash_of w cfg"
    by (rule search_hash_of_cong) (simp_all add: lib)
  have m1: "response (monitoring_run w cfg h S) = response (monitoring_run w' cfg h S)" for h S
    by (rule monitoring_run_same_listings(1)) (simp_all add: same)
  have m2: "calls (monitoring_run w cfg h S) = calls (monitoring_run w' cfg h S)" for h S
    by (rule monitoring_run_same_listings(2)) (simp_all add: same)
  have s1: "response (seeding_run w cfg h) = response (seeding_run w' cfg h)" for h
    by (rule seeding_run_same_listings(1)) (simp add: same)
  have s2: "calls (seeding_run w cfg h) = calls (seeding_run w' cfg h)" for h
    by (rule seeding_run_same_listings(2)) (simp add: same)
  show "response (craigslist_bot_entry_point w cfg) = response (craigslist_bot_entry_point w' cfg)"
    unfolding entry_point_unfold hash seen act [symmetric] by (simp add: m1 s1)
  show "calls (craigslist_bot_entry_point w cfg) = calls (craigslist_bot_entry_point w' cfg)"
    unfolding entry_point_unfold hash seen act [symmetric] by (simp add: m2 s2)
qed

text \<open>
  C6, as the code has it. No failure of the store is fatal to the run. When the read of
  \<^verbatim>\<open>get_seen_listing_ids\<close> fails, the function returns the empty list and the run goes
  on exactly as on a store that works and holds nothing: same response, same calls, the
  call of \<^verbatim>\<open>save_listing_ids\<close> among them. When the read or the write inside
  \<^verbatim>\<open>save_listing_ids\<close> fails, the function returns \<^verbatim>\<open>False\<close> and leaves the store as it
  was, so that run marks nothing as seen; the entry point does not look at the value
  returned, and the response of the run is the same whether those requests fail or not.
  In every case, what the store held before the run it still holds after it.
\<close>

theorem persistence_failure_is_swallowed:
  "(seen_read_raises fs \<longrightarrow> get_seen_listing_ids fs h = [])
   \<and> (save_read_raises fs \<or> write_raises fs \<longrightarrow>
        snd (save_listing_ids fs h ids) = fs
        \<and> (client_available fs \<and> ids \<noteq> [] \<longrightarrow> \<not> fst (save_listing_ids fs h ids)))
   \<and> (save_read_raises (store w) \<or> write_raises (store w) \<longrightarrow>
        store_after (craigslist_bot_entry_point w cfg) = store w)
   \<and> (seen_read_raises (store w) \<longrightarrow>
        response (craigslist_bot_entry_point w cfg)
          = response (craigslist_bot_entry_point
                        (w\<lparr> store := (store w)\<lparr> seen_read_raises := False,
                                                seen_listings := Map.empty \<rparr> \<rparr>) cfg)
        \<and> calls (craigslist_bot_entry_point w cfg)
          = calls (craigslist_bot_entry_point
                        (w\<lparr> store := (store w)\<lparr> seen_read_raises := False,
                                                seen_listings := Map.empty \<rparr> \<rparr>) cfg))
   \<and> response (craigslist_bot_entry_point
                 (w\<lparr> store := (store w)\<lparr> save_read_raises := a, write_raises := b \<rparr> \<rparr>) cfg)
       = response (craigslist_bot_entry_point w cfg)
   \<and> recorded (store w) h \<subseteq> recorded (store_after (craigslist_bot_entry_point w cfg)) h"
proof (intro conjI impI)
  show "get_seen_listing_ids fs h = []" if "seen_read_raises fs"
    using that by (rule get_seen_read_failure)
  show "snd (save_listing_ids fs h ids) = fs" if "save_read_raises fs \<or> write_raises fs"
    using that by (rule save_failure_keeps_store)
  show "\<not> fst (save_listing_ids fs h ids)"
    if "save_read_raises fs \<or> write_raises fs" "client_available fs \<and> ids \<noteq> []"
    using that save_failure_returns_False by blast
  show "store_after (craigslist_bot_entry_point w cfg) = store w"
    if "save_read_raises (store w) \<or> write_raises (store w)"
    using that by (rule entry_point_store_failure)
  show "response (craigslist_bot_entry_point w cfg)
          = response (craigslist_bot_entry_point
                        (w\<lparr> store := (store w)\<lparr> seen_read_raises := False,
                                                seen_listings := Map.empty \<rparr> \<rparr>) cfg)"
    if "seen_read_raises (store w)"
    by (rule entry_point_response_cong(1))
       (simp_all add: get_seen_read_failure [OF that], simp add: get_seen_listing_ids_def)
  show "calls (craigslist_bot_entry_point w cfg)
          = calls (craigslist_bot_entry_point
                        (w\<lparr> store := (store w)\<lparr> seen_read_raises := False,
                                                seen_listings := Map.empty \<rparr> \<rparr>) cfg)"
    if "seen_read_raises (store w)"
    by (rule entry_point_response_cong(2))
       (simp_all add: get_seen_read_failure [OF that], simp add: get_seen_listing_ids_def)
  show "response (craigslist_bot_entry_point
                 (w\<lparr> store := (store w)\<lparr> save_read_raises := a, write_raises := b \<rparr> \<rparr>) cfg)
       = response (craigslist_bot_entry_point w cfg)"
    by (rule entry_point_response_cong(1)) (simp_all add: get_seen_listing_ids_def)
  show "recorded (store w) h \<subseteq> recorded (store_after (craigslist_bot_entry_point w cfg)) h"
    by (rule entry_point_keeps_recorded)
qed

lemma scrape_page4_initial:
  "scrape_new_listings_data example_page4 True 6 seen_ids
   = [example_listing ''0'' ''7855175150'', example_listing ''1'' ''7862084694'',
      example_listing ''2'' ''7881930891'', example_listing ''3'' ''7890000004'']"
  apply (simp add: scrape_initial_ignores_seen [of _ _ seen_ids])
  apply (simp add: scrape_new_listings_data_def example_page4_def)
  apply (simp add: example_web_def listing_elements_of_def py_prefix_def
           process_example_dom [unfolded example_web_def] example_numbers_def)
  apply (simp add: str_nat.simps digit_char_def eval_nat_numeral)
  done

lemma example_first_run:
  assumes "get_seen_listing_ids fs ''road bike_94105_15_u1_t1'' = []"
  shows "\<exists>b. response (craigslist_bot_entry_point (example_world example_page4 fs)
                (example_config ''less_strict'')) = Ok200 b
            \<and> message b = ''Craigslist bot execution completed''
            \<and> total_listings b = 4 \<and> new_listings b = 4"
proof -
  have numeric: "\<And>l. l \<in> set (evaluate_listings example_scorer c ls) \<Longrightarrow>
        \<exists>q. match_score (evaluation l) = JNum q" for c ls
    using example_evaluation_numeric
    by (auto simp add: evaluate_listings_def with_evaluation_def)
  show ?thesis
    by (simp add: entry_point_unfold example_world_fields example_config_fields example_hash
          assms monitoring_run_def Let_def scrape_page4_initial STRICTNESS_THRESHOLDS_def
          get_production_listings_numeric [OF numeric])
qed

lemma example_first_run_store:
  assumes "get_seen_listing_ids fs ''road bike_94105_15_u1_t1'' = []"
  shows "store_after (craigslist_bot_entry_point (example_world example_page4 fs)
                (example_config ''less_strict''))
         = snd (save_listing_ids fs ''road bike_94105_15_u1_t1''
                  [''dom_0_7855175150'', ''dom_1_7862084694'', ''dom_2_7881930891'',
                   ''dom_3_7890000004''])"
proof -
  have numeric: "\<And>l. l \<in> set (evaluate_listings example_scorer c ls) \<Longrightarrow>
        \<exists>q. match_score (evaluation l) = JNum q" for c ls
    using example_evaluation_numeric
    by (auto simp add: evaluate_listings_def with_evaluation_def)
  show ?thesis
    by (simp add: entry_point_unfold example_world_fields example_config_fields example_hash
          assms monitoring_run_def Let_def scrape_page4_initial STRICTNESS_THRESHOLDS_def
          get_production_listings_numeric [OF numeric] example_listing_ids)
qed

lemma example_unreadable_seen:
  "get_seen_listing_ids example_store_unreadable ''road bike_94105_15_u1_t1'' = []"
  by (simp add: get_seen_listing_ids_def example_store_unreadable_def)

lemma example_unwritable_seen:
  "get_seen_listing_ids example_store_unwritable ''road bike_94105_15_u1_t1'' = []"
  by (simp add: get_seen_listing_ids_def example_store_unwritable_def example_store_def)

text \<open>
  The claim C6 as stated (a failed read or write aborts the run, nothing is marked as
  seen, and a fatal persistence outcome is reported) fails. With a store on which the
  read of the Seen-Set raises, the run treats the page's four listings as new, the one
  recorded as seen among them, reports success, and records all four as seen. With a
  store whose write raises, the run reports success too.
\<close>

theorem persistence_failure_counterexample:
  "seen_read_raises example_store_unreadable
   \<and> recorded example_store_unreadable ''road bike_94105_15_u1_t1'' = {''dom_0_7855175150''}
   \<and> (\<exists>b. response (craigslist_bot_entry_point
                (example_world example_page4 example_store_unreadable)
                (example_config ''less_strict'')) = Ok200 b
          \<and> message b = ''Craigslist bot execution completed''
          \<and> total_listings b = 4 \<and> new_listings b = 4)
   \<and> recorded (store_after (craigslist_bot_entry_point
                (example_world example_page4 example_store_unreadable)
                (example_config ''less_strict''))) ''road bike_94105_15_u1_t1''
      = {''dom_0_7855175150'', ''dom_1_7862084694'', ''dom_2_7881930891'',
         ''dom_3_7890000004''}
   \<and> write_raises example_store_unwritable
   \<and> (\<exists>b. response (craigslist_bot_entry_point
                (example_world example_page4 example_store_unwritable)
                (example_config ''less_strict'')) = Ok200 b
          \<and> message b = ''Craigslist bot execution completed''
          \<and> total_listings b = 4 \<and> new_listings b = 4)"
proof -
  have s: "recorded (store_after (craigslist_bot_entry_point
                (example_world example_page4 example_store_unreadable)
                (example_config ''less_strict''))) ''road bike_94105_15_u1_t1''
      = {''dom_0_7855175150'', ''dom_1_7862084694'', ''dom_2_7881930891'',
         ''dom_3_7890000004''}"
    unfolding example_first_run_store [OF example_unreadable_seen]
    by (simp add: recorded_def save_listing_ids_def example_store_unreadable_def
          example_store_def Let_def)
  show ?thesis
    using example_first_run [OF example_unreadable_seen]
      example_first_run [OF example_unwritable_seen] s
    by (simp add: example_store_unreadable_def example_store_unwritable_def example_store_def
          recorded_def)
qed

theorem persistence_failure_is_swallowed_witness:
  "seen_read_raises example_store_unreadable
   \<and> get_seen_listing_ids example_store_unreadable ''road bike_94105_15_u1_t1'' = []
   \<and> response (craigslist_bot_entry_point
                 (example_world example_page4 example_store_unreadable)
                 (example_config ''less_strict''))
      = response (craigslist_bot_entry_point
                    (example_world example_page4 (example_store Map.empty))
                    (example_config ''less_strict''))
   \<and> calls (craigslist_bot_entry_point
                 (example_world example_page4 example_store_unreadable)
                 (example_config ''less_strict''))
      = calls (craigslist_bot_entry_point
                    (example_world example_page4 (example_store Map.empty))
                    (example_config ''less_strict''))
   \<and> write_raises example_store_unwritable
   \<and> snd (save_listing_ids example_store_unwritable ''road bike_94105_15_u1_t1''
            [''dom_0_7862084694'']) = example_store_unwritable
   \<and> \<not> fst (save_listing_ids example_store_unwritable ''road bike_94105_15_u1_t1''
              [''dom_0_7862084694''])
   \<and> store_after (craigslist_bot_entry_point
                    (example_world example_page4 example_store_unwritable)
                    (example_config ''less_strict'')) = example_store_unwritable
   \<and> response (craigslist_bot_entry_point
                 (example_world example_page4 example_store_unwritable)
                 (example_config ''less_strict''))
      = response (craigslist_bot_entry_point
                    (example_world example_page4 (example_store Map.empty))
                    (example_config ''less_strict''))"
  using persistence_failure_is_swallowed
          [of example_store_unreadable "''road bike_94105_15_u1_t1''" "[''dom_0_7862084694'']"
              "example_world example_page4 example_store_unreadable"
              "example_config ''less_strict''" False False]
        persistence_failure_is_swallowed
          [of example_store_unwritable "''road bike_94105_15_u1_t1''" "[''dom_0_7862084694'']"
              "example_world example_page4 (example_store Map.empty)"
              "example_config ''less_strict''" False True]
        persistence_failure_is_swallowed
          [of example_store_unwritable "''road bike_94105_15_u1_t1''" "[''dom_0_7862084694'']"
              "example_world example_page4 example_store_unwritable"
              "example_config ''less_strict''" False True]
  by (simp add: example_store_unreadable_def example_store_unwritable_def example_store_def
        example_world_def)

subsection \<open>Merging into the Seen-Set\<close>

lemma save_listing_ids_merges:
  assumes "client_available fs" "\<not> seen_read_raises fs" "\<not> save_read_raises fs"
    "\<not> write_raises fs"
  shows "set (get_seen_listing_ids (snd (save_listing_ids fs h ids)) h)
           = set (get_seen_listing_ids fs h) \<union> set ids"
    and "h' \<noteq> h \<Longrightarrow> get_seen_listing_ids (snd (save_listing_ids fs h ids)) h'
           = get_seen_listing_ids fs h'"
  using assms
  by (auto simp add: save_listing_ids_def get_seen_listing_ids_def Let_def split: option.splits)

lemma save_listing_ids_flags:
  "client_available (snd (save_listing_ids fs h ids)) = client_available fs"
  "seen_read_raises (snd (save_listing_ids fs h ids)) = seen_read_raises fs"
  "save_read_raises (snd (save_listing_ids fs h ids)) = save_read_raises fs"
  "write_raises (snd (save_listing_ids fs h ids)) = write_raises fs"
  by (simp_all add: save_listing_ids_def Let_def)

lemma save_listing_ids_grows:
  "set (get_seen_listing_ids fs h') \<subseteq> set (get_seen_listing_ids (snd (save_listing_ids fs h ids)) h')"
  by (auto simp add: save_listing_ids_def get_seen_listing_ids_def Let_def split: option.splits)

lemma save_listing_ids_xyz:
  assumes "client_available fs" "\<not> seen_read_raises fs" "\<not> save_read_raises fs"
    "\<not> write_raises fs"
    and "get_seen_listing_ids fs fp = []"
  shows "set (get_seen_listing_ids
                (snd (save_listing_ids (snd (save_listing_ids fs fp [x, y])) fp [y, z])) fp)
         = {x, y, z}"
proof -
  let ?fs1 = "snd (save_listing_ids fs fp [x, y])"
  have 1: "set (get_seen_listing_ids ?fs1 fp) = {x, y}"
    using save_listing_ids_merges(1) [OF assms(1-4), of fp "[x, y]"] assms(5) by simp
  have "set (get_seen_listing_ids (snd (save_listing_ids ?fs1 fp [y, z])) fp)
          = set (get_seen_listing_ids ?fs1 fp) \<union> set [y, z]"
    by (rule save_listing_ids_merges(1)) (simp_all add: save_listing_ids_flags assms)
  with 1 show ?thesis by auto
qed

text \<open>
  C3. The claim: merging unions the new identifiers into the stored set, which only
  grows; after merging \<open>{x, y}\<close> and then \<open>{y, z}\<close> the set is \<open>{x, y, z}\<close>.
  \<^verbatim>\<open>save_listing_ids\<close> of \<^verbatim>\<open>src/backend/main.py\<close> does so (the three lemmas above). The
  function of the same name in the root-level \<^verbatim>\<open>src/main.py\<close> replaces the stored list
  by the list it is given: after the same two calls the store holds \<open>y\<close> and \<open>z\<close> only,
  and \<open>x\<close> is lost.
\<close>

theorem root_save_listing_ids_overwrites:
  "get_seen_listing_ids
     (snd (save_listing_ids_root
             (snd (save_listing_ids_root (example_store Map.empty) ''fp'' [''x'', ''y'']))
             ''fp'' [''y'', ''z''])) ''fp''
   = [''y'', ''z'']
   \<and> set (get_seen_listing_ids
     (snd (save_listing_ids
             (snd (save_listing_ids (example_store Map.empty) ''fp'' [''x'', ''y'']))
             ''fp'' [''y'', ''z''])) ''fp'')
   = {''x'', ''y'', ''z''}"
  by (simp add: save_listing_ids_root_def save_listing_ids_def get_seen_listing_ids_def
        example_store_def Let_def)

end
